theory Spec2Isabelle
  imports Main "HOL-Library.Word"
begin

unbundle bit_operations_syntax

section \<open>Machine integers and outcomes\<close>

type_synonym u8 = "8 word"
type_synonym u16 = "16 word"
type_synonym u32 = "32 word"

text \<open>
  A C function of the library either returns, or does something the C standard leaves
  undefined (a read outside the buffer it was given, a division by zero, the use of
  memory that was never written). The second outcome is a value of the model.
\<close>

datatype 'a res = Ok 'a | Undefined

definition byte_at :: "u8 list \<Rightarrow> nat \<Rightarrow> u8 option" where
  "byte_at buffer i = (if i < length buffer then Some (buffer ! i) else None)"

section \<open>Variable-length quantities\<close>

text \<open>
  \<open>ReadVariableLength(buffer, bufflen, outvalue)\<close>: the do-while loop. The list is the
  memory from \<open>buffer\<close> to the end of its allocation, \<open>size_read\<close> the C counter; the
  result is the returned \<open>int\<close> together with \<open>*outvalue\<close>.
\<close>

fun ReadVariableLength_loop :: "u8 list \<Rightarrow> u32 \<Rightarrow> int \<Rightarrow> u32 \<Rightarrow> (int \<times> u32) res" where
  "ReadVariableLength_loop [] bufflen size_read outvalue =
     (if uint bufflen \<le> size_read then Ok (- 1, outvalue) else Undefined)"
| "ReadVariableLength_loop (b # bs) bufflen size_read outvalue =
     (if uint bufflen \<le> size_read then Ok (- 1, outvalue)
      else if b < 128 then Ok (size_read + 1, outvalue + ucast b)
      else ReadVariableLength_loop bs bufflen (size_read + 1)
             ((outvalue + (ucast b - 128)) * 128))"

definition ReadVariableLength :: "u8 list \<Rightarrow> u32 \<Rightarrow> (int \<times> u32) res" where
  "ReadVariableLength buffer bufflen = ReadVariableLength_loop buffer bufflen 0 0"

text \<open>
  \<open>WriteVariableLength(buffer, bufflen, value)\<close>: the counting loop
  \<open>while ((v /= 128) > 0) i++\<close>, the size check, and the backwards fill. \<open>None\<close> is the
  return value \<open>-1\<close>; otherwise the bytes \<open>buffer[0..j-1]\<close> written, \<open>j\<close> being their
  number.
\<close>

function vlq_count :: "u32 \<Rightarrow> u32 \<Rightarrow> u32" where
  "vlq_count v i = (if v div 128 > 0 then vlq_count (v div 128) (i + 1) else i)"
  by pat_completeness auto
termination
proof (relation "measure (\<lambda>(v, i). unat v)")
  show "wf (measure (\<lambda>(v :: u32, i :: u32). unat v))" by simp
next
  fix v i :: u32
  assume "0 < v div 128"
  then have "unat (v div 128) \<noteq> 0" by (simp add: unat_eq_0 word_greater_zero_iff)
  then have "unat v div 128 \<noteq> 0" by (simp add: unat_div)
  then have "unat v div 128 < unat v" by simp
  then show "((v div 128, i + 1), (v, i)) \<in> measure (\<lambda>(v, i). unat v)"
    by (simp add: unat_div)
qed

fun vlq_fill :: "nat \<Rightarrow> u32 \<Rightarrow> u8 list \<Rightarrow> u8 list" where
  "vlq_fill 0 val acc = acc"
| "vlq_fill (Suc i) val acc =
     vlq_fill i (val div 128) (ucast (((val div 128) AND 0x7F) OR 0x80) # acc)"

definition WriteVariableLength :: "u32 \<Rightarrow> u32 \<Rightarrow> u8 list option" where
  "WriteVariableLength bufflen val =
     (let i = vlq_count val 0; j = i + 1
      in if j > bufflen then None
         else Some (vlq_fill (unat i) val [ucast (val AND 0x7F)]))"

text \<open>
  A byte string is a variable-length encoding of \<open>v\<close> when the decoder, given exactly
  that string, consumes all of it and returns \<open>v\<close>.
\<close>

definition is_vlq_of :: "u8 list \<Rightarrow> u32 \<Rightarrow> bool" where
  "is_vlq_of bs v \<longleftrightarrow> ReadVariableLength bs (of_nat (length bs)) = Ok (int (length bs), v)"

text \<open>
  The seven data bits of a byte, and the value the decoder accumulates over a run of
  continuation bytes, computed without wrap-around.
\<close>

definition dig :: "u8 \<Rightarrow> nat" where
  "dig b = unat b mod 128"

fun dval :: "nat \<Rightarrow> u8 list \<Rightarrow> nat" where
  "dval a [] = a"
| "dval a (b # bs) = dval ((a + dig b) * 128) bs"

section \<open>Events\<close>

text \<open>The enumeration \<open>MidiEventType_t\<close> and its byte values (\<open>ezMidi.h\<close>).\<close>

datatype MidiEventType =
    Midi_Event_Type_Text
  | Midi_Event_Type_Copyright
  | Midi_Event_Type_SequenceName
  | Midi_Event_Type_InstrumentName
  | Midi_Event_Type_Lyric
  | Midi_Event_Type_Marker
  | Midi_Event_Type_CuePoint
  | Midi_Event_Type_ProgramName
  | Midi_Event_Type_SequenceNumber
  | Midi_Event_Type_ChannelPrefix
  | Midi_Event_Type_MidiPort
  | Midi_Event_Type_EndOfTrack
  | Midi_Event_Type_SetTempo
  | Midi_Event_Type_SMPTEoffset
  | Midi_Event_Type_TimeSignature
  | Midi_Event_Type_KeySignature
  | Midi_Event_Type_SysEx
  | Midi_Event_Type_SysEx2
  | Midi_Event_Type_NoteOn
  | Midi_Event_Type_NoteOff
  | Midi_Event_Type_PolyphonicKeyPressure
  | Midi_Event_Type_ControlChange
  | Midi_Event_Type_ProgramChange
  | Midi_Event_Type_ChannelPressure
  | Midi_Event_Type_PitchWheelChange

fun type_byte :: "MidiEventType \<Rightarrow> u8" where
  "type_byte Midi_Event_Type_Text = 0x01"
| "type_byte Midi_Event_Type_Copyright = 0x02"
| "type_byte Midi_Event_Type_SequenceName = 0x03"
| "type_byte Midi_Event_Type_InstrumentName = 0x04"
| "type_byte Midi_Event_Type_Lyric = 0x05"
| "type_byte Midi_Event_Type_Marker = 0x06"
| "type_byte Midi_Event_Type_CuePoint = 0x07"
| "type_byte Midi_Event_Type_ProgramName = 0x08"
| "type_byte Midi_Event_Type_SequenceNumber = 0x00"
| "type_byte Midi_Event_Type_ChannelPrefix = 0x20"
| "type_byte Midi_Event_Type_MidiPort = 0x21"
| "type_byte Midi_Event_Type_EndOfTrack = 0x2F"
| "type_byte Midi_Event_Type_SetTempo = 0x51"
| "type_byte Midi_Event_Type_SMPTEoffset = 0x54"
| "type_byte Midi_Event_Type_TimeSignature = 0x58"
| "type_byte Midi_Event_Type_KeySignature = 0x59"
| "type_byte Midi_Event_Type_SysEx = 0x7F"
| "type_byte Midi_Event_Type_SysEx2 = 0xF0"
| "type_byte Midi_Event_Type_NoteOn = 0x90"
| "type_byte Midi_Event_Type_NoteOff = 0x80"
| "type_byte Midi_Event_Type_PolyphonicKeyPressure = 0xA0"
| "type_byte Midi_Event_Type_ControlChange = 0xB0"
| "type_byte Midi_Event_Type_ProgramChange = 0xC0"
| "type_byte Midi_Event_Type_ChannelPressure = 0xD0"
| "type_byte Midi_Event_Type_PitchWheelChange = 0xE0"

text \<open>
  The payload structs \<open>MidiEventData_*_t\<close> behind \<open>void* data\<close>, one constructor per
  struct with the fields in declaration order. \<open>Data_Text\<close> carries \<open>length\<close> and the
  array \<open>text[255]\<close>; \<open>Data_NoteEvent\<close> carries \<open>channel\<close>, \<open>key\<close>, \<open>velocity\<close>,
  \<open>OnOff\<close>. Three more values stand for what a \<open>void*\<close> can be besides: the
  zero-size allocation of an End-of-Track event, allocated memory that no reader wrote,
  and the null pointer.
\<close>

datatype MidiEventData =
    Data_Text u8 "u8 list"
  | Data_SequenceNumber u16
  | Data_ChannelPrefix u8
  | Data_MidiPort u8
  | Data_SetTempo u32
  | Data_SMPTEoffset u8 u8 u8 u8 u8
  | Data_TimeSignature u8 u8 u8 u8
  | Data_KeySignature u8 u8
  | Data_NoteEvent u8 u8 u8 u8
  | Data_PolyphonicKeyPressure u8 u8 u8
  | Data_ControlChange u8 u8 u8
  | Data_ProgramChange u8 u8
  | Data_ChannelPressure u8 u8
  | Data_PitchWheelChange u8 u16
  | Data_Empty
  | Data_Uninit
  | Data_NULL

text \<open>\<open>MidiEvent_t\<close>; the \<open>interface\<close> pointer is the table row, named by its type.\<close>

record MidiEvent =
  deltaTime :: u32
  interface :: MidiEventType
  data :: MidiEventData

text \<open>
  The \<open>read_data\<close> functions. \<open>buffer_ptr\<close> is the memory from the pointer to the end
  of the track buffer. The result is the returned \<open>int\<close> and the struct written through
  \<open>data_ptr\<close> (\<open>None\<close>: nothing written, on the \<open>assert_len\<close> failures);
  \<open>Undefined\<close> when a byte past the buffer is read.
\<close>

text \<open>
  \<open>read_data_Text\<close>: the guard is \<open>len > MidiEventData_Text_Max_Length - 1\<close>.
  \<open>sprintf("%.*s", len, buffer_ptr + 1)\<close> copies at most \<open>len\<close> characters and stops at
  a NUL; the struct was zeroed before.
\<close>

definition MidiEventData_Text_Max_Length :: nat where
  "MidiEventData_Text_Max_Length = 255"

definition read_data_Text :: "u8 list \<Rightarrow> u8 \<Rightarrow> (int \<times> MidiEventData option) res" where
  "read_data_Text buffer_ptr type =
     (case buffer_ptr of
        [] \<Rightarrow> Undefined
      | len # payload \<Rightarrow>
          if unat len > MidiEventData_Text_Max_Length - 1 then Ok (- 1, None)
          else let s = takeWhile (\<lambda>c. c \<noteq> 0) (take (unat len) payload)
               in if length s = length payload \<and> length payload < unat len then Undefined
                  else Ok (1 + int (unat len),
                           Some (Data_Text len
                             (s @ replicate (MidiEventData_Text_Max_Length - length s) 0))))"

definition read_data_SequenceNumber :: "u8 list \<Rightarrow> u8 \<Rightarrow> (int \<times> MidiEventData option) res" where
  "read_data_SequenceNumber buffer_ptr type =
     (case buffer_ptr of
        [] \<Rightarrow> Undefined
      | len # payload \<Rightarrow>
          if len \<noteq> 2 then Ok (- 1, None)
          else (case payload of
                  b1 # b2 # _ \<Rightarrow> Ok (3, Some (Data_SequenceNumber (ucast b1 * 256 + ucast b2)))
                | _ \<Rightarrow> Undefined))"

definition read_data_ChannelPrefix :: "u8 list \<Rightarrow> u8 \<Rightarrow> (int \<times> MidiEventData option) res" where
  "read_data_ChannelPrefix buffer_ptr type =
     (case buffer_ptr of
        [] \<Rightarrow> Undefined
      | len # payload \<Rightarrow>
          if len \<noteq> 1 then Ok (- 1, None)
          else (case payload of
                  b1 # _ \<Rightarrow> Ok (2, Some (Data_ChannelPrefix b1))
                | _ \<Rightarrow> Undefined))"

definition read_data_MidiPort :: "u8 list \<Rightarrow> u8 \<Rightarrow> (int \<times> MidiEventData option) res" where
  "read_data_MidiPort buffer_ptr type =
     (case buffer_ptr of
        [] \<Rightarrow> Undefined
      | len # payload \<Rightarrow>
          if len \<noteq> 1 then Ok (- 1, None)
          else (case payload of
                  b1 # _ \<Rightarrow> Ok (2, Some (Data_MidiPort b1))
                | _ \<Rightarrow> Undefined))"

definition read_data_SetTempo :: "u8 list \<Rightarrow> u8 \<Rightarrow> (int \<times> MidiEventData option) res" where
  "read_data_SetTempo buffer_ptr type =
     (case buffer_ptr of
        [] \<Rightarrow> Undefined
      | len # payload \<Rightarrow>
          if len \<noteq> 3 then Ok (- 1, None)
          else (case payload of
                  b1 # b2 # b3 # _ \<Rightarrow>
                    Ok (4, Some (Data_SetTempo ((ucast b1 * 256 + ucast b2) * 256 + ucast b3)))
                | _ \<Rightarrow> Undefined))"

definition read_data_SMPTEoffset :: "u8 list \<Rightarrow> u8 \<Rightarrow> (int \<times> MidiEventData option) res" where
  "read_data_SMPTEoffset buffer_ptr type =
     (case buffer_ptr of
        [] \<Rightarrow> Undefined
      | len # payload \<Rightarrow>
          if len \<noteq> 5 then Ok (- 1, None)
          else (case payload of
                  b1 # b2 # b3 # b4 # b5 # _ \<Rightarrow> Ok (6, Some (Data_SMPTEoffset b1 b2 b3 b4 b5))
                | _ \<Rightarrow> Undefined))"

definition read_data_TimeSignature :: "u8 list \<Rightarrow> u8 \<Rightarrow> (int \<times> MidiEventData option) res" where
  "read_data_TimeSignature buffer_ptr type =
     (case buffer_ptr of
        [] \<Rightarrow> Undefined
      | len # payload \<Rightarrow>
          if len \<noteq> 4 then Ok (- 1, None)
          else (case payload of
                  b1 # b2 # b3 # b4 # _ \<Rightarrow> Ok (5, Some (Data_TimeSignature b1 b2 b3 b4))
                | _ \<Rightarrow> Undefined))"

definition read_data_KeySignature :: "u8 list \<Rightarrow> u8 \<Rightarrow> (int \<times> MidiEventData option) res" where
  "read_data_KeySignature buffer_ptr type =
     (case buffer_ptr of
        [] \<Rightarrow> Undefined
      | len # payload \<Rightarrow>
          if len \<noteq> 2 then Ok (- 1, None)
          else (case payload of
                  b1 # b2 # _ \<Rightarrow> Ok (3, Some (Data_KeySignature b1 b2))
                | _ \<Rightarrow> Undefined))"

definition read_data_SysEx :: "u8 list \<Rightarrow> u8 \<Rightarrow> (int \<times> MidiEventData option) res" where
  "read_data_SysEx buffer_ptr type = read_data_Text buffer_ptr type"

definition read_data_EndOfTrack :: "u8 list \<Rightarrow> u8 \<Rightarrow> (int \<times> MidiEventData option) res" where
  "read_data_EndOfTrack buffer_ptr type =
     (case buffer_ptr of
        [] \<Rightarrow> Undefined
      | len # payload \<Rightarrow> if len \<noteq> 0 then Ok (- 1, None) else Ok (1, None))"

definition read_data_Note :: "u8 list \<Rightarrow> u8 \<Rightarrow> (int \<times> MidiEventData option) res" where
  "read_data_Note buffer_ptr type =
     (case buffer_ptr of
        b0 # b1 # _ \<Rightarrow> Ok (2, Some (Data_NoteEvent (type AND 0x0F) b0 b1 (type AND 0xF0)))
      | _ \<Rightarrow> Undefined)"

definition read_data_PolyphonicKeyPressure ::
  "u8 list \<Rightarrow> u8 \<Rightarrow> (int \<times> MidiEventData option) res" where
  "read_data_PolyphonicKeyPressure buffer_ptr type =
     (case buffer_ptr of
        b0 # b1 # _ \<Rightarrow> Ok (2, Some (Data_PolyphonicKeyPressure (type AND 0x0F) b0 b1))
      | _ \<Rightarrow> Undefined)"

definition read_data_ControlChange :: "u8 list \<Rightarrow> u8 \<Rightarrow> (int \<times> MidiEventData option) res" where
  "read_data_ControlChange buffer_ptr type =
     (case buffer_ptr of
        b0 # b1 # _ \<Rightarrow> Ok (2, Some (Data_ControlChange (type AND 0x0F) b0 b1))
      | _ \<Rightarrow> Undefined)"

definition read_data_ProgramChange :: "u8 list \<Rightarrow> u8 \<Rightarrow> (int \<times> MidiEventData option) res" where
  "read_data_ProgramChange buffer_ptr type =
     (case buffer_ptr of
        b0 # _ \<Rightarrow> Ok (1, Some (Data_ProgramChange (type AND 0x0F) b0))
      | _ \<Rightarrow> Undefined)"

definition read_data_ChannelPressure :: "u8 list \<Rightarrow> u8 \<Rightarrow> (int \<times> MidiEventData option) res" where
  "read_data_ChannelPressure buffer_ptr type =
     (case buffer_ptr of
        b0 # _ \<Rightarrow> Ok (1, Some (Data_ChannelPressure (type AND 0x0F) b0))
      | _ \<Rightarrow> Undefined)"

definition read_data_PitchWheelChange :: "u8 list \<Rightarrow> u8 \<Rightarrow> (int \<times> MidiEventData option) res" where
  "read_data_PitchWheelChange buffer_ptr type =
     (case buffer_ptr of
        b0 # b1 # _ \<Rightarrow>
          Ok (2, Some (Data_PitchWheelChange (type AND 0x0F) (ucast b0 + 128 * ucast b1)))
      | _ \<Rightarrow> Undefined)"

text \<open>
  The \<open>write_data\<close> functions: the bytes copied to \<open>buffer_ptr\<close>, whose number is the
  returned \<open>int\<close>. A payload of another struct than the one the function casts to is
  outside what the C program defines.
\<close>

definition write_data_Text :: "MidiEvent \<Rightarrow> u8 list res" where
  "write_data_Text event =
     (case data event of
        Data_Text len text \<Rightarrow>
          if length text < unat len then Undefined
          else if interface event = Midi_Event_Type_SysEx2
          then Ok ([type_byte Midi_Event_Type_SysEx2, len] @ take (unat len) text)
          else Ok ([0xFF, type_byte (interface event), len] @ take (unat len) text)
      | _ \<Rightarrow> Undefined)"

definition write_data_SequenceNumber :: "MidiEvent \<Rightarrow> u8 list res" where
  "write_data_SequenceNumber event =
     (case data event of
        Data_SequenceNumber number \<Rightarrow>
          Ok [0xFF, type_byte Midi_Event_Type_SequenceNumber, 2,
              ucast (number div 256), ucast (number mod 256)]
      | _ \<Rightarrow> Undefined)"

definition write_data_ChannelPrefix :: "MidiEvent \<Rightarrow> u8 list res" where
  "write_data_ChannelPrefix event =
     (case data event of
        Data_ChannelPrefix channel \<Rightarrow> Ok [0xFF, type_byte Midi_Event_Type_ChannelPrefix, 1, channel]
      | _ \<Rightarrow> Undefined)"

definition write_data_MidiPort :: "MidiEvent \<Rightarrow> u8 list res" where
  "write_data_MidiPort event =
     (case data event of
        Data_MidiPort port \<Rightarrow> Ok [0xFF, type_byte Midi_Event_Type_MidiPort, 1, port]
      | _ \<Rightarrow> Undefined)"

definition write_data_SetTempo :: "MidiEvent \<Rightarrow> u8 list res" where
  "write_data_SetTempo event =
     (case data event of
        Data_SetTempo tempo \<Rightarrow>
          Ok [0xFF, type_byte Midi_Event_Type_SetTempo, 3,
              ucast (drop_bit 16 tempo AND 0xFF), ucast (drop_bit 8 tempo AND 0xFF),
              ucast (tempo AND 0xFF)]
      | _ \<Rightarrow> Undefined)"

text \<open>\<open>write_data_SMPTEoffset\<close> is \<open>/* TODO */ return 0;\<close>: it writes nothing.\<close>

definition write_data_SMPTEoffset :: "MidiEvent \<Rightarrow> u8 list res" where
  "write_data_SMPTEoffset event = Ok []"

definition write_data_TimeSignature :: "MidiEvent \<Rightarrow> u8 list res" where
  "write_data_TimeSignature event =
     (case data event of
        Data_TimeSignature nn dd cc bb \<Rightarrow>
          Ok [0xFF, type_byte Midi_Event_Type_TimeSignature, 4, nn, dd, cc, bb]
      | _ \<Rightarrow> Undefined)"

definition write_data_KeySignature :: "MidiEvent \<Rightarrow> u8 list res" where
  "write_data_KeySignature event =
     (case data event of
        Data_KeySignature sf mi \<Rightarrow> Ok [0xFF, type_byte Midi_Event_Type_KeySignature, 2, sf, mi]
      | _ \<Rightarrow> Undefined)"

definition write_data_SysEx :: "MidiEvent \<Rightarrow> u8 list res" where
  "write_data_SysEx event = write_data_Text event"

definition write_data_EndOfTrack :: "MidiEvent \<Rightarrow> u8 list res" where
  "write_data_EndOfTrack event = Ok [0xFF, type_byte Midi_Event_Type_EndOfTrack, 0]"

definition write_data_Note :: "MidiEvent \<Rightarrow> u8 list res" where
  "write_data_Note event =
     (case data event of
        Data_NoteEvent channel key velocity OnOff \<Rightarrow> Ok [OnOff OR channel, key, velocity]
      | _ \<Rightarrow> Undefined)"

definition write_data_PolyphonicKeyPressure :: "MidiEvent \<Rightarrow> u8 list res" where
  "write_data_PolyphonicKeyPressure event =
     (case data event of
        Data_PolyphonicKeyPressure channel key pressure \<Rightarrow>
          Ok [type_byte Midi_Event_Type_PolyphonicKeyPressure OR channel, key, pressure]
      | _ \<Rightarrow> Undefined)"

definition write_data_ControlChange :: "MidiEvent \<Rightarrow> u8 list res" where
  "write_data_ControlChange event =
     (case data event of
        Data_ControlChange channel control val \<Rightarrow>
          Ok [type_byte Midi_Event_Type_ControlChange OR channel, control, val]
      | _ \<Rightarrow> Undefined)"

definition write_data_ProgramChange :: "MidiEvent \<Rightarrow> u8 list res" where
  "write_data_ProgramChange event =
     (case data event of
        Data_ProgramChange channel program \<Rightarrow>
          Ok [type_byte Midi_Event_Type_ProgramChange OR channel, program]
      | _ \<Rightarrow> Undefined)"

definition write_data_ChannelPressure :: "MidiEvent \<Rightarrow> u8 list res" where
  "write_data_ChannelPressure event =
     (case data event of
        Data_ChannelPressure channel pressure \<Rightarrow>
          Ok [type_byte Midi_Event_Type_ChannelPressure OR channel, pressure]
      | _ \<Rightarrow> Undefined)"

definition write_data_PitchWheelChange :: "MidiEvent \<Rightarrow> u8 list res" where
  "write_data_PitchWheelChange event =
     (case data event of
        Data_PitchWheelChange channel wheel \<Rightarrow>
          Ok [type_byte Midi_Event_Type_PitchWheelChange OR channel,
              ucast (wheel mod 128), ucast (wheel div 128)]
      | _ \<Rightarrow> Undefined)"

text \<open>\<open>InterfaceTable\<close>: the rows in source order, and the two function columns.\<close>

definition InterfaceTable :: "MidiEventType list" where
  "InterfaceTable =
     [Midi_Event_Type_Text, Midi_Event_Type_Copyright, Midi_Event_Type_SequenceName,
      Midi_Event_Type_InstrumentName, Midi_Event_Type_Lyric, Midi_Event_Type_Marker,
      Midi_Event_Type_CuePoint, Midi_Event_Type_ProgramName,
      Midi_Event_Type_SequenceNumber, Midi_Event_Type_ChannelPrefix, Midi_Event_Type_MidiPort,
      Midi_Event_Type_EndOfTrack, Midi_Event_Type_SetTempo, Midi_Event_Type_SMPTEoffset,
      Midi_Event_Type_TimeSignature, Midi_Event_Type_KeySignature, Midi_Event_Type_SysEx,
      Midi_Event_Type_SysEx2,
      Midi_Event_Type_NoteOn, Midi_Event_Type_NoteOff, Midi_Event_Type_PolyphonicKeyPressure,
      Midi_Event_Type_ControlChange, Midi_Event_Type_ProgramChange,
      Midi_Event_Type_ChannelPressure, Midi_Event_Type_PitchWheelChange]"

fun read_data :: "MidiEventType \<Rightarrow> u8 list \<Rightarrow> u8 \<Rightarrow> (int \<times> MidiEventData option) res" where
  "read_data Midi_Event_Type_SequenceNumber = read_data_SequenceNumber"
| "read_data Midi_Event_Type_ChannelPrefix = read_data_ChannelPrefix"
| "read_data Midi_Event_Type_MidiPort = read_data_MidiPort"
| "read_data Midi_Event_Type_EndOfTrack = read_data_EndOfTrack"
| "read_data Midi_Event_Type_SetTempo = read_data_SetTempo"
| "read_data Midi_Event_Type_SMPTEoffset = read_data_SMPTEoffset"
| "read_data Midi_Event_Type_TimeSignature = read_data_TimeSignature"
| "read_data Midi_Event_Type_KeySignature = read_data_KeySignature"
| "read_data Midi_Event_Type_SysEx = read_data_SysEx"
| "read_data Midi_Event_Type_SysEx2 = read_data_SysEx"
| "read_data Midi_Event_Type_NoteOn = read_data_Note"
| "read_data Midi_Event_Type_NoteOff = read_data_Note"
| "read_data Midi_Event_Type_PolyphonicKeyPressure = read_data_PolyphonicKeyPressure"
| "read_data Midi_Event_Type_ControlChange = read_data_ControlChange"
| "read_data Midi_Event_Type_ProgramChange = read_data_ProgramChange"
| "read_data Midi_Event_Type_ChannelPressure = read_data_ChannelPressure"
| "read_data Midi_Event_Type_PitchWheelChange = read_data_PitchWheelChange"
| "read_data _ = read_data_Text"

fun write_data :: "MidiEventType \<Rightarrow> MidiEvent \<Rightarrow> u8 list res" where
  "write_data Midi_Event_Type_SequenceNumber = write_data_SequenceNumber"
| "write_data Midi_Event_Type_ChannelPrefix = write_data_ChannelPrefix"
| "write_data Midi_Event_Type_MidiPort = write_data_MidiPort"
| "write_data Midi_Event_Type_EndOfTrack = write_data_EndOfTrack"
| "write_data Midi_Event_Type_SetTempo = write_data_SetTempo"
| "write_data Midi_Event_Type_SMPTEoffset = write_data_SMPTEoffset"
| "write_data Midi_Event_Type_TimeSignature = write_data_TimeSignature"
| "write_data Midi_Event_Type_KeySignature = write_data_KeySignature"
| "write_data Midi_Event_Type_SysEx = write_data_SysEx"
| "write_data Midi_Event_Type_SysEx2 = write_data_SysEx"
| "write_data Midi_Event_Type_NoteOn = write_data_Note"
| "write_data Midi_Event_Type_NoteOff = write_data_Note"
| "write_data Midi_Event_Type_PolyphonicKeyPressure = write_data_PolyphonicKeyPressure"
| "write_data Midi_Event_Type_ControlChange = write_data_ControlChange"
| "write_data Midi_Event_Type_ProgramChange = write_data_ProgramChange"
| "write_data Midi_Event_Type_ChannelPressure = write_data_ChannelPressure"
| "write_data Midi_Event_Type_PitchWheelChange = write_data_PitchWheelChange"
| "write_data _ = write_data_Text"

text \<open>
  \<open>MidiEvent_Create\<close>: the linear search of the table for the type byte; \<open>None\<close> is the
  return value \<open>-1\<close>. \<open>malloc(alloc_size)\<close> gives unwritten memory (of size zero for
  End of Track, whose \<open>alloc_size\<close> is 0).
\<close>

definition MidiEvent_Create :: "u8 \<Rightarrow> u32 \<Rightarrow> bool \<Rightarrow> MidiEvent option" where
  "MidiEvent_Create type dt allocData =
     (case find (\<lambda>t. type_byte t = type) InterfaceTable of
        None \<Rightarrow> None
      | Some t \<Rightarrow>
          Some \<lparr>deltaTime = dt, interface = t,
                data = (if allocData
                        then (if t = Midi_Event_Type_EndOfTrack then Data_Empty else Data_Uninit)
                        else Data_NULL)\<rparr>)"

definition MidiEvent_GetType :: "MidiEvent \<Rightarrow> MidiEventType" where
  "MidiEvent_GetType event = interface event"

section \<open>Tracks and files\<close>

text \<open>
  \<open>MidiTrack_t\<close>: the array \<open>Events\<close> of \<open>NumEvents\<close> slots. A slot is \<open>None\<close> when
  \<open>realloc\<close> added it and nothing was stored in it (the loop of \<open>MidiTrack_Read\<close> leaves
  with \<open>break\<close> after \<open>MidiEvent_Create\<close> fails). \<open>NumEvents\<close> is the length of the array.
\<close>

record MidiTrack =
  Events :: "MidiEvent option list"

definition NumEvents :: "MidiTrack \<Rightarrow> nat" where
  "NumEvents track = length (Events track)"

text \<open>\<open>MidiFile_t\<close>; \<open>Tracks\<close> is \<open>None\<close> for the null pointer.\<close>

record MidiFile =
  Format :: u16
  nTrks :: u16
  PulsesPerQuarterNote :: u16
  Tracks :: "MidiTrack list option"

definition u32fromarray :: "u8 \<Rightarrow> u8 \<Rightarrow> u8 \<Rightarrow> u8 \<Rightarrow> u32" where
  "u32fromarray a0 a1 a2 a3 = ((ucast a0 * 256 + ucast a1) * 256 + ucast a2) * 256 + ucast a3"

definition u32toarray :: "u32 \<Rightarrow> u8 list" where
  "u32toarray val =
     [ucast (drop_bit 24 val AND 0xFF), ucast (drop_bit 16 val AND 0xFF),
      ucast (drop_bit 8 val AND 0xFF), ucast (val AND 0xFF)]"

definition u16fromarray :: "u8 \<Rightarrow> u8 \<Rightarrow> u16" where
  "u16fromarray a0 a1 = ucast a0 * 256 + ucast a1"

definition u16toarray :: "u16 \<Rightarrow> u8 list" where
  "u16toarray val = [ucast (drop_bit 8 val AND 0xFF), ucast (val AND 0xFF)]"

text \<open>
  \<open>MidiTrack_Read\<close>, the part of the loop body that reads the status byte: the result is
  \<open>statusByte\<close>, \<open>meta\<close>, and the new values of \<open>read\<close> and \<open>running_status\<close>; \<open>None\<close>
  when \<open>buffer[read++]\<close> is outside the buffer. The meta branch assigns \<open>statusByte\<close> and
  \<open>meta\<close> only; \<open>running_status\<close> is assigned in the last \<open>else\<close> alone.
\<close>

definition MidiTrack_Read_status :: "u8 list \<Rightarrow> u32 \<Rightarrow> u8 \<Rightarrow> (u8 \<times> bool \<times> u32 \<times> u8) option" where
  "MidiTrack_Read_status buffer rd running_status =
     (case byte_at buffer (unat rd) of
        None \<Rightarrow> None
      | Some b \<Rightarrow>
          if b = 0xFF
          then (case byte_at buffer (unat (rd + 1)) of
                  None \<Rightarrow> None
                | Some t \<Rightarrow> Some (t, True, rd + 2, running_status))
          else if b < 0x80 then Some (running_status, False, rd + 1 - 1, running_status)
          else Some (b, False, rd + 1, b))"

text \<open>
  The do-while loop of \<open>MidiTrack_Read\<close>. It need not end (a \<open>read_data\<close> that returns
  \<open>-1\<close> moves \<open>read\<close> backwards), so it runs on fuel, one unit for each pass: \<open>None\<close>
  is a loop still running when the fuel is spent. \<open>realloc\<close> and \<open>malloc\<close> are taken to
  succeed. The track is updated in place, so the events read before an early \<open>return\<close>
  or \<open>break\<close> stay in it.
\<close>

fun MidiTrack_Read_loop ::
  "nat \<Rightarrow> u8 list \<Rightarrow> u32 \<Rightarrow> u32 \<Rightarrow> u8 \<Rightarrow> MidiTrack \<Rightarrow> MidiTrack res option" where
  "MidiTrack_Read_loop 0 buffer len rd running_status track = None"
| "MidiTrack_Read_loop (Suc fuel) buffer len rd running_status track =
     (case ReadVariableLength (drop (unat rd) buffer) (len - rd) of
        Undefined \<Rightarrow> Some Undefined
      | Ok (variablelen, delta) \<Rightarrow>
          if variablelen \<le> 0 then Some (Ok track)
          else
            (case MidiTrack_Read_status buffer (rd + word_of_int variablelen) running_status of
               None \<Rightarrow> Some Undefined
             | Some (statusByte, meta, rd1, running_status1) \<Rightarrow>
                 (case MidiEvent_Create (if meta then statusByte else statusByte AND 0xF0)
                         delta True of
                    None \<Rightarrow> Some (Ok (track\<lparr>Events := Events track @ [None]\<rparr>))
                  | Some new_event \<Rightarrow>
                      (case read_data (interface new_event) (drop (unat rd1) buffer) statusByte of
                         Undefined \<Rightarrow> Some Undefined
                       | Ok (n, written) \<Rightarrow>
                           let ev = (case written of
                                       None \<Rightarrow> new_event
                                     | Some d \<Rightarrow> new_event\<lparr>data := d\<rparr>);
                               track1 = track\<lparr>Events := Events track @ [Some ev]\<rparr>;
                               rd2 = rd1 + word_of_int n
                           in if rd2 < len
                              then MidiTrack_Read_loop fuel buffer len rd2 running_status1 track1
                              else Some (Ok track1)))))"

definition MidiTrack_Read :: "nat \<Rightarrow> u8 list \<Rightarrow> u32 \<Rightarrow> MidiTrack \<Rightarrow> MidiTrack res option" where
  "MidiTrack_Read fuel buffer len track = MidiTrack_Read_loop fuel buffer len 0 0 track"

definition MIDI_CHUNK_HEADER :: "u8 list" where
  "MIDI_CHUNK_HEADER = [0x4D, 0x54, 0x68, 0x64]"

definition MIDI_CHUNK_TRACK :: "u8 list" where
  "MIDI_CHUNK_TRACK = [0x4D, 0x54, 0x72, 0x6B]"

text \<open>
  One pass of the chunk loop of \<open>MidiFile_Open\<close> on the unread bytes \<open>fp\<close> of the file.
  It either ends the call (\<open>Some (Ok (Some mf))\<close>: the file is returned;
  \<open>Some (Ok None)\<close>: \<open>goto error\<close>, the call returns \<open>NULL\<close>; \<open>None\<close>: the track reader
  did not return within the fuel) or goes on with the bytes left. Fewer than four bytes
  where the tag is read is the clean end of file. The four length bytes are read with no
  check: when the file ends inside them \<open>chunklength\<close> is not determined, which decides
  nothing for a header (the six bytes cannot be read either) or an unknown tag, and
  leaves the outcome open for a track. \<open>fopen\<close>, \<open>malloc\<close> and \<open>calloc\<close> are taken to
  succeed.
\<close>

datatype chunk_step =
    Chunk_Continue MidiFile u8 "u8 list"
  | Chunk_Stop "MidiFile option res option"

definition MidiFile_Open_header :: "MidiFile \<Rightarrow> u8 \<Rightarrow> bool \<Rightarrow> u32 \<Rightarrow> u8 list \<Rightarrow> chunk_step" where
  "MidiFile_Open_header mf trackNumber len_read chunklength fp =
     (if \<not> len_read \<or> chunklength \<noteq> 6 then Chunk_Stop (Some (Ok None))
      else (case fp of
              h0 # h1 # h2 # h3 # h4 # h5 # fp' \<Rightarrow>
                let mf1 = mf\<lparr>Format := u16fromarray h0 h1, nTrks := u16fromarray h2 h3,
                              PulsesPerQuarterNote := u16fromarray h4 h5\<rparr>
                in if Format mf1 = 0 \<and> nTrks mf1 \<noteq> 1 then Chunk_Stop (Some (Ok None))
                   else Chunk_Continue
                          (mf1\<lparr>Tracks := Some (replicate (unat (nTrks mf1)) \<lparr>Events = []\<rparr>)\<rparr>)
                          trackNumber fp'
            | _ \<Rightarrow> Chunk_Stop (Some (Ok None))))"

definition MidiFile_Open_track ::
  "nat \<Rightarrow> MidiFile \<Rightarrow> u8 \<Rightarrow> bool \<Rightarrow> u32 \<Rightarrow> u8 list \<Rightarrow> chunk_step" where
  "MidiFile_Open_track fuel mf trackNumber len_read chunklength fp =
     (case Tracks mf of
        None \<Rightarrow> Chunk_Stop (Some (Ok None))
      | Some tracks \<Rightarrow>
          if nTrks mf \<le> ucast trackNumber then Chunk_Stop (Some (Ok None))
          else if \<not> len_read then Chunk_Stop (Some Undefined)
          else if length fp < unat chunklength then Chunk_Stop (Some (Ok None))
          else if length tracks \<le> unat trackNumber then Chunk_Stop (Some Undefined)
          else (case MidiTrack_Read fuel (take (unat chunklength) fp) chunklength
                       (tracks ! unat trackNumber) of
                  None \<Rightarrow> Chunk_Stop None
                | Some Undefined \<Rightarrow> Chunk_Stop (Some Undefined)
                | Some (Ok track) \<Rightarrow>
                    Chunk_Continue (mf\<lparr>Tracks := Some (tracks[unat trackNumber := track])\<rparr>)
                      (trackNumber + 1) (drop (unat chunklength) fp)))"

definition MidiFile_Open_chunk :: "nat \<Rightarrow> MidiFile \<Rightarrow> u8 \<Rightarrow> u8 list \<Rightarrow> chunk_step" where
  "MidiFile_Open_chunk fuel mf trackNumber fp =
     (case fp of
        t0 # t1 # t2 # t3 # fp1 \<Rightarrow>
          let chunktype = [t0, t1, t2, t3];
              len_read = (4 \<le> length fp1);
              chunklength = (case fp1 of
                               l0 # l1 # l2 # l3 # _ \<Rightarrow> u32fromarray l0 l1 l2 l3
                             | _ \<Rightarrow> 0);
              fp2 = drop 4 fp1
          in if chunktype = MIDI_CHUNK_HEADER
             then MidiFile_Open_header mf trackNumber len_read chunklength fp2
             else if chunktype = MIDI_CHUNK_TRACK
             then MidiFile_Open_track fuel mf trackNumber len_read chunklength fp2
             else Chunk_Stop (Some (Ok None))
      | _ \<Rightarrow> Chunk_Stop (Some (Ok (Some mf))))"

function MidiFile_Open_loop :: "nat \<Rightarrow> MidiFile \<Rightarrow> u8 \<Rightarrow> u8 list \<Rightarrow> MidiFile option res option" where
  "MidiFile_Open_loop fuel mf trackNumber fp =
     (case MidiFile_Open_chunk fuel mf trackNumber fp of
        Chunk_Stop r \<Rightarrow> r
      | Chunk_Continue mf1 trackNumber1 fp1 \<Rightarrow> MidiFile_Open_loop fuel mf1 trackNumber1 fp1)"
  by pat_completeness auto
termination
proof (relation "measure (\<lambda>(fuel, mf, trackNumber, fp). length fp)")
  show "wf (measure (\<lambda>(fuel :: nat, mf :: MidiFile, trackNumber :: u8, fp :: u8 list). length fp))"
    by simp
next
  fix fuel :: nat and mf mf1 :: MidiFile and trackNumber trackNumber1 :: u8 and fp fp1 :: "u8 list"
  assume "MidiFile_Open_chunk fuel mf trackNumber fp = Chunk_Continue mf1 trackNumber1 fp1"
  then have "length fp1 < length fp"
    by (auto simp: MidiFile_Open_chunk_def MidiFile_Open_header_def MidiFile_Open_track_def
          Let_def split: list.splits if_splits option.splits res.splits)
  then show "((fuel, mf1, trackNumber1, fp1), (fuel, mf, trackNumber, fp))
             \<in> measure (\<lambda>(fuel, mf, trackNumber, fp). length fp)"
    by simp
qed

definition MidiFile_Open :: "nat \<Rightarrow> u8 list \<Rightarrow> MidiFile option res option" where
  "MidiFile_Open fuel file =
     MidiFile_Open_loop fuel \<lparr>Format = 0, nTrks = 0, PulsesPerQuarterNote = 0, Tracks = None\<rparr> 0 file"

text \<open>
  \<open>MidiFile_Save\<close>: the event loop of one track, with \<open>allocSize\<close> and the bytes
  \<open>buffer[0..trackLen-1]\<close>. The buffer grows by 1024 when fewer than 128 bytes are
  free; a write past \<open>allocSize\<close> is outside the allocation. \<open>WriteVariableLength\<close> is
  called with \<open>bufflen = 5\<close> and its result added to \<open>trackLen\<close> unchecked.
\<close>

fun MidiFile_Save_events :: "MidiEvent option list \<Rightarrow> nat \<Rightarrow> u8 list \<Rightarrow> u8 list res" where
  "MidiFile_Save_events [] allocSize buffer = Ok buffer"
| "MidiFile_Save_events (slot # rest) allocSize buffer =
     (let allocSize1 = (if allocSize - length buffer < 128 then allocSize + 1024 else allocSize)
      in case slot of
           None \<Rightarrow> Undefined
         | Some event \<Rightarrow>
             (case (case WriteVariableLength 5 (deltaTime event) of
                      None \<Rightarrow> (if buffer = [] then Undefined else Ok (butlast buffer))
                    | Some vl \<Rightarrow> Ok (buffer @ vl)) of
                Undefined \<Rightarrow> Undefined
              | Ok buffer1 \<Rightarrow>
                  if allocSize1 < length buffer1 then Undefined
                  else (case write_data (interface event) event of
                          Undefined \<Rightarrow> Undefined
                        | Ok bytes \<Rightarrow>
                            if allocSize1 < length buffer1 + length bytes then Undefined
                            else MidiFile_Save_events rest allocSize1 (buffer1 @ bytes))))"

fun MidiFile_Save_tracks :: "MidiTrack list \<Rightarrow> nat list \<Rightarrow> u8 list res" where
  "MidiFile_Save_tracks tracks [] = Ok []"
| "MidiFile_Save_tracks tracks (t # ts) =
     (if length tracks \<le> t then Undefined
      else (case MidiFile_Save_events (Events (tracks ! t)) 1024 [] of
              Undefined \<Rightarrow> Undefined
            | Ok buffer \<Rightarrow>
                (case MidiFile_Save_tracks tracks ts of
                   Undefined \<Rightarrow> Undefined
                 | Ok chunks \<Rightarrow>
                     Ok (MIDI_CHUNK_TRACK @ u32toarray (of_nat (length buffer)) @ buffer @ chunks))))"

definition MidiFile_Save :: "MidiFile \<Rightarrow> u8 list res" where
  "MidiFile_Save save =
     (case MidiFile_Save_tracks (case Tracks save of None \<Rightarrow> [] | Some tracks \<Rightarrow> tracks)
             [0 ..< unat (nTrks save)] of
        Undefined \<Rightarrow> Undefined
      | Ok chunks \<Rightarrow>
          Ok (MIDI_CHUNK_HEADER @ [0x00, 0x00, 0x00, 0x06]
              @ u16toarray (Format save) @ u16toarray (nTrks save)
              @ u16toarray (PulsesPerQuarterNote save) @ chunks))"

text \<open>
  Two files for the round trip: the bytes of a format-1 file whose only track holds an
  SMPTE-offset event and an End of Track, and the file the decoder makes of them.
\<close>

definition smpte_bytes :: "u8 list" where
  "smpte_bytes =
     [0x4D, 0x54, 0x68, 0x64, 0, 0, 0, 6, 0, 1, 0, 1, 0, 0x60,
      0x4D, 0x54, 0x72, 0x6B, 0, 0, 0, 0x0D,
      0, 0xFF, 0x54, 5, 1, 2, 3, 4, 5,
      0, 0xFF, 0x2F, 0]"

definition smpte_file :: MidiFile where
  "smpte_file =
     \<lparr>Format = 1, nTrks = 1, PulsesPerQuarterNote = 96,
      Tracks = Some [\<lparr>Events =
        [Some \<lparr>deltaTime = 0, interface = Midi_Event_Type_SMPTEoffset,
               data = Data_SMPTEoffset 1 2 3 4 5\<rparr>,
         Some \<lparr>deltaTime = 0, interface = Midi_Event_Type_EndOfTrack, data = Data_Empty\<rparr>]\<rparr>]\<rparr>"

definition smpte_saved :: "u8 list" where
  "smpte_saved =
     [0x4D, 0x54, 0x68, 0x64, 0, 0, 0, 6, 0, 1, 0, 1, 0, 0x60,
      0x4D, 0x54, 0x72, 0x6B, 0, 0, 0, 5,
      0, 0, 0xFF, 0x2F, 0]"

section \<open>Player and time map\<close>

text \<open>
  A \<open>MidiEvent_t*\<close> handed to a callback points into the file: it is the index of the
  track and of the event in it.
\<close>

type_synonym event_ptr = "nat \<times> nat"

definition deref :: "MidiFile \<Rightarrow> event_ptr \<Rightarrow> MidiEvent option" where
  "deref midi p =
     (case Tracks midi of
        None \<Rightarrow> None
      | Some tracks \<Rightarrow>
          if fst p < length tracks \<and> snd p < length (Events (tracks ! fst p))
          then Events (tracks ! fst p) ! snd p
          else None)"

definition UINT32_MAX :: u32 where
  "UINT32_MAX = 0xFFFFFFFF"

text \<open>\<open>Player_Callback_Result_t\<close>; a callback returns an \<open>int\<close>.\<close>

definition Player_Callback_PlayEvent :: int where
  "Player_Callback_PlayEvent = 1"

definition Player_Callback_IgnoreEvent :: int where
  "Player_Callback_IgnoreEvent = 0"

definition Player_Callback_Abort :: int where
  "Player_Callback_Abort = - 1"

text \<open>
  A \<open>playerCallback\<close> with the state it closes over: it takes the state, the event
  pointer, \<open>track\<close>, \<open>timeTicks\<close> and \<open>timeUs\<close>, and returns its \<open>int\<close> and the new state.
\<close>

type_synonym 's playerCallback = "'s \<Rightarrow> event_ptr \<Rightarrow> u16 \<Rightarrow> u32 \<Rightarrow> u32 \<Rightarrow> int \<times> 's"

definition trivial_callback :: "'s playerCallback" where
  "trivial_callback s event trackIndex timeTicks timeUs = (Player_Callback_PlayEvent, s)"

text \<open>
  The calls the player makes to the synth sink, with their arguments in source order:
  \<open>MidiDevice_PlayNote(key, channel, velocity, state)\<close> and
  \<open>MidiDevice_SetChannelInstrument(channel, instrument)\<close>.
\<close>

datatype device_call =
    MidiDevice_PlayNote u8 u8 u8 u8
  | MidiDevice_SetChannelInstrument u8 u8

text \<open>
  The local variables of \<open>MidiFile_Play\<close>, the logs of what it did (device calls,
  \<open>SLEEPUS\<close> arguments, callback invocations) and the state of the callback.
\<close>

record 's player_state =
  waitTicks :: "u32 list"
  minimumWaitTicks :: u32
  countFinishedTracks :: u16
  currentEvent :: "u16 list"
  TickDurationUs :: u32
  currentTotalTime_Ticks :: u32
  currentTotalTime_Usecs :: u32
  device_calls :: "device_call list"
  sleeps :: "u32 list"
  cb_calls :: "(event_ptr \<times> u16 \<times> u32 \<times> u32) list"
  cb_state :: 's

text \<open>
  How a run stands: the function returned at the end of the loop, returned on
  \<open>Player_Callback_Abort\<close>, left what C defines, or is still in the loop.
\<close>

datatype 's play_result =
    Returned "'s player_state"
  | Aborted "'s player_state"
  | Undefined_behaviour "'s player_state"
  | Running "'s player_state"

fun state_of :: "'s play_result \<Rightarrow> 's player_state" where
  "state_of (Returned st) = st"
| "state_of (Aborted st) = st"
| "state_of (Undefined_behaviour st) = st"
| "state_of (Running st) = st"

text \<open>
  The if-chain between the callback and the label \<open>ignore\<close>. The state argument of
  \<open>MidiDevice_PlayNote\<close> is \<open>(type == Midi_Event_Type_NoteOn)\<close>.
\<close>

definition MidiFile_Play_dispatch ::
  "MidiFile \<Rightarrow> u32 \<Rightarrow> MidiEvent \<Rightarrow> 's player_state \<Rightarrow> 's player_state res" where
  "MidiFile_Play_dispatch midi start_usec event st =
     (let type = MidiEvent_GetType event
      in if (type = Midi_Event_Type_NoteOn \<or> type = Midi_Event_Type_NoteOff)
            \<and> start_usec \<le> currentTotalTime_Usecs st
         then (case data event of
                 Data_NoteEvent channel key velocity OnOff \<Rightarrow>
                   Ok (st\<lparr>device_calls := device_calls st @
                            [MidiDevice_PlayNote key channel velocity
                               (if type = Midi_Event_Type_NoteOn then 1 else 0)]\<rparr>)
               | _ \<Rightarrow> Undefined)
         else if type = Midi_Event_Type_SetTempo
         then (case data event of
                 Data_SetTempo tempo \<Rightarrow>
                   if PulsesPerQuarterNote midi = 0 then Undefined
                   else Ok (st\<lparr>TickDurationUs := tempo div ucast (PulsesPerQuarterNote midi)\<rparr>)
               | _ \<Rightarrow> Undefined)
         else if type = Midi_Event_Type_ProgramChange
         then (case data event of
                 Data_ProgramChange channel program \<Rightarrow>
                   Ok (st\<lparr>device_calls := device_calls st @
                            [MidiDevice_SetChannelInstrument channel program]\<rparr>)
               | _ \<Rightarrow> Undefined)
         else Ok st)"

text \<open>From the label \<open>ignore\<close> to the end of the body; \<open>currentEvent\<close> is a \<open>uint16_t\<close>.\<close>

definition MidiFile_Play_advance ::
  "MidiEvent option list \<Rightarrow> nat \<Rightarrow> 's player_state \<Rightarrow> 's player_state res" where
  "MidiFile_Play_advance events trackIndex st =
     (let cur = currentEvent st ! trackIndex + 1;
          st1 = st\<lparr>currentEvent := (currentEvent st)[trackIndex := cur]\<rparr>
      in case (if length events \<le> unat cur
               then Ok (st1\<lparr>waitTicks := (waitTicks st1)[trackIndex := UINT32_MAX],
                            countFinishedTracks := countFinishedTracks st1 + 1\<rparr>)
               else (case events ! unat cur of
                       None \<Rightarrow> Undefined
                     | Some next_event \<Rightarrow>
                         Ok (st1\<lparr>waitTicks := (waitTicks st1)[trackIndex := deltaTime next_event]\<rparr>))) of
           Undefined \<Rightarrow> Undefined
         | Ok st2 \<Rightarrow>
             Ok (st2\<lparr>minimumWaitTicks := min (minimumWaitTicks st2) (waitTicks st2 ! trackIndex)\<rparr>))"

text \<open>The body of the for-loop over the tracks, for one \<open>trackIndex\<close>.\<close>

definition MidiFile_Play_track ::
  "MidiFile \<Rightarrow> u32 \<Rightarrow> 's playerCallback \<Rightarrow> u32 \<Rightarrow> nat \<Rightarrow> 's player_state \<Rightarrow> 's play_result" where
  "MidiFile_Play_track midi start_usec cbFunc decrementTicks trackIndex st =
     (let w = waitTicks st ! trackIndex - decrementTicks;
          st1 = st\<lparr>waitTicks := (waitTicks st)[trackIndex := w]\<rparr>
      in if w \<noteq> 0 then Running (st1\<lparr>minimumWaitTicks := min (minimumWaitTicks st1) w\<rparr>)
         else
           (case Tracks midi of
              None \<Rightarrow> Undefined_behaviour st1
            | Some tracks \<Rightarrow>
                if length tracks \<le> trackIndex then Undefined_behaviour st1
                else
                  let events = Events (tracks ! trackIndex);
                      idx = unat (currentEvent st1 ! trackIndex)
                  in if length events \<le> idx then Undefined_behaviour st1
                     else
                       (case events ! idx of
                          None \<Rightarrow> Undefined_behaviour st1
                        | Some event \<Rightarrow>
                            let r = cbFunc (cb_state st1) (trackIndex, idx) (of_nat trackIndex)
                                      (currentTotalTime_Ticks st1) (currentTotalTime_Usecs st1);
                                st2 = st1\<lparr>cb_calls := cb_calls st1 @
                                             [((trackIndex, idx), of_nat trackIndex,
                                               currentTotalTime_Ticks st1,
                                               currentTotalTime_Usecs st1)],
                                           cb_state := snd r\<rparr>
                            in if fst r = Player_Callback_Abort then Aborted st2
                               else
                                 (case (if fst r = Player_Callback_IgnoreEvent
                                           \<and> MidiEvent_GetType event \<noteq> Midi_Event_Type_SetTempo
                                        then Ok st2
                                        else MidiFile_Play_dispatch midi start_usec event st2) of
                                    Undefined \<Rightarrow> Undefined_behaviour st2
                                  | Ok st3 \<Rightarrow>
                                      (case MidiFile_Play_advance events trackIndex st3 of
                                         Undefined \<Rightarrow> Undefined_behaviour st3
                                       | Ok st4 \<Rightarrow> Running st4)))))"

fun MidiFile_Play_tracks ::
  "MidiFile \<Rightarrow> u32 \<Rightarrow> 's playerCallback \<Rightarrow> u32 \<Rightarrow> nat list \<Rightarrow> 's player_state \<Rightarrow> 's play_result" where
  "MidiFile_Play_tracks midi start_usec cbFunc decrementTicks [] st = Running st"
| "MidiFile_Play_tracks midi start_usec cbFunc decrementTicks (trackIndex # rest) st =
     (case MidiFile_Play_track midi start_usec cbFunc decrementTicks trackIndex st of
        Running st1 \<Rightarrow> MidiFile_Play_tracks midi start_usec cbFunc decrementTicks rest st1
      | r \<Rightarrow> r)"

text \<open>
  The while-loop, on fuel (one unit for each pass): with no fuel left the result is
  the state reached, \<open>Running\<close> when the loop condition still holds.
\<close>

fun MidiFile_Play_loop ::
  "nat \<Rightarrow> MidiFile \<Rightarrow> u32 \<Rightarrow> 's playerCallback \<Rightarrow> 's player_state \<Rightarrow> 's play_result" where
  "MidiFile_Play_loop 0 midi start_usec cbFunc st =
     (if countFinishedTracks st < nTrks midi then Running st else Returned st)"
| "MidiFile_Play_loop (Suc fuel) midi start_usec cbFunc st =
     (if \<not> countFinishedTracks st < nTrks midi then Returned st
      else
        let st1 = st\<lparr>currentTotalTime_Ticks := currentTotalTime_Ticks st + minimumWaitTicks st,
                      currentTotalTime_Usecs :=
                        currentTotalTime_Usecs st + TickDurationUs st * minimumWaitTicks st\<rparr>;
            st2 = (if start_usec \<le> currentTotalTime_Usecs st1
                   then st1\<lparr>sleeps := sleeps st1 @ [TickDurationUs st1 * minimumWaitTicks st1]\<rparr>
                   else st1);
            decrementTicks = minimumWaitTicks st2;
            st3 = st2\<lparr>minimumWaitTicks := UINT32_MAX\<rparr>
        in case MidiFile_Play_tracks midi start_usec cbFunc decrementTicks
                  [0 ..< unat (nTrks midi)] st3 of
             Running st4 \<Rightarrow> MidiFile_Play_loop fuel midi start_usec cbFunc st4
           | r \<Rightarrow> r)"

definition MidiFile_Play_init :: "MidiFile \<Rightarrow> 's \<Rightarrow> 's player_state" where
  "MidiFile_Play_init midi s =
     \<lparr>waitTicks = replicate (unat (nTrks midi)) 0,
      minimumWaitTicks = 0,
      countFinishedTracks = 0,
      currentEvent = replicate (unat (nTrks midi)) 0,
      TickDurationUs = 2602,
      currentTotalTime_Ticks = 0,
      currentTotalTime_Usecs = 0,
      device_calls = [],
      sleeps = [],
      cb_calls = [],
      cb_state = s\<rparr>"

definition MidiFile_Play ::
  "nat \<Rightarrow> MidiFile \<Rightarrow> u32 \<Rightarrow> 's playerCallback option \<Rightarrow> 's \<Rightarrow> 's play_result" where
  "MidiFile_Play fuel midi start_usec cbFunc s =
     MidiFile_Play_loop fuel midi start_usec
       (case cbFunc of None \<Rightarrow> trivial_callback | Some f \<Rightarrow> f)
       (MidiFile_Play_init midi s)"

text \<open>\<open>MidiAbsoluteTimeMap_t\<close>; \<open>OffEvent\<close> is \<open>None\<close> for the null pointer.\<close>

record MidiAbsoluteTimeMap =
  track :: u16
  OnEvent :: event_ptr
  OffEvent :: "event_ptr option"
  startTime :: u32
  endTime :: u32

text \<open>
  The for-loop of the note-off branch of \<open>playerCb\<close>, \<open>i\<close> running from \<open>numEvents - 1\<close>
  down to 0: the first argument is \<open>i + 1\<close>. The list has fewer than \<open>2^31\<close> entries,
  so that \<open>int i = numEvents - 1\<close> is its last index.
\<close>

fun playerCb_find ::
  "MidiFile \<Rightarrow> nat \<Rightarrow> event_ptr \<Rightarrow> u16 \<Rightarrow> u32 \<Rightarrow> u8 \<Rightarrow> u8 \<Rightarrow> MidiAbsoluteTimeMap list
     \<Rightarrow> MidiAbsoluteTimeMap list res" where
  "playerCb_find midi 0 event trackIndex timeUs channel key lst = Ok lst"
| "playerCb_find midi (Suc i) event trackIndex timeUs channel key lst =
     (if OffEvent (lst ! i) \<noteq> None
      then playerCb_find midi i event trackIndex timeUs channel key lst
      else (case deref midi (OnEvent (lst ! i)) of
              None \<Rightarrow> Undefined
            | Some on_event \<Rightarrow>
                (case data on_event of
                   Data_NULL \<Rightarrow> playerCb_find midi i event trackIndex timeUs channel key lst
                 | Data_NoteEvent mchannel mkey mvelocity mOnOff \<Rightarrow>
                     if mchannel = channel \<and> track (lst ! i) = trackIndex \<and> mkey = key
                        \<and> mOnOff = type_byte Midi_Event_Type_NoteOn
                     then Ok (lst[i := (lst ! i)\<lparr>OffEvent := Some event, endTime := timeUs\<rparr>])
                     else playerCb_find midi i event trackIndex timeUs channel key lst
                 | _ \<Rightarrow> Undefined)))"

text \<open>
  \<open>playerCb\<close>, the nested function of \<open>Midi_MapAbsoluteTime\<close>; its state is the list
  \<open>*list\<close> of \<open>numEvents\<close> entries (\<open>Undefined\<close> once a payload that is no note struct
  was read as one). \<open>realloc\<close> in \<open>addMap\<close> is taken to succeed. Its only \<open>return\<close> is
  \<open>return Player_Callback_IgnoreEvent\<close>.
\<close>

definition playerCb :: "MidiFile \<Rightarrow> MidiAbsoluteTimeMap list res playerCallback" where
  "playerCb midi s event trackIndex timeTicks timeUs =
     (Player_Callback_IgnoreEvent,
      case s of
        Undefined \<Rightarrow> Undefined
      | Ok lst \<Rightarrow>
          (case deref midi event of
             None \<Rightarrow> Undefined
           | Some ev \<Rightarrow>
               if interface ev = Midi_Event_Type_NoteOff \<or> interface ev = Midi_Event_Type_NoteOn
               then (case data ev of
                       Data_NULL \<Rightarrow> Ok lst
                     | Data_NoteEvent channel key velocity OnOff \<Rightarrow>
                         if OnOff = type_byte Midi_Event_Type_NoteOff \<or> velocity = 0
                         then playerCb_find midi (length lst) event trackIndex timeUs channel key lst
                         else Ok (lst @ [\<lparr>track = trackIndex, OnEvent = event, OffEvent = None,
                                          startTime = timeUs, endTime = UINT32_MAX\<rparr>])
                     | _ \<Rightarrow> Undefined)
               else Ok lst))"

definition Midi_MapAbsoluteTime :: "nat \<Rightarrow> MidiFile \<Rightarrow> MidiAbsoluteTimeMap list res play_result" where
  "Midi_MapAbsoluteTime fuel midi =
     MidiFile_Play fuel midi UINT32_MAX (Some (playerCb midi)) (Ok [])"

text \<open>
  A one-track file: a Set Tempo event, then an End of Track \<open>d\<close> ticks later; and a
  one-track file holding a single Note On with velocity 0.
\<close>

definition tempo_file :: "u16 \<Rightarrow> u32 \<Rightarrow> u32 \<Rightarrow> MidiFile" where
  "tempo_file ppq tempo d =
     \<lparr>Format = 0, nTrks = 1, PulsesPerQuarterNote = ppq,
      Tracks = Some [\<lparr>Events =
        [Some \<lparr>deltaTime = 0, interface = Midi_Event_Type_SetTempo, data = Data_SetTempo tempo\<rparr>,
         Some \<lparr>deltaTime = d, interface = Midi_Event_Type_EndOfTrack, data = Data_Empty\<rparr>]\<rparr>]\<rparr>"

definition silent_note_file :: MidiFile where
  "silent_note_file =
     \<lparr>Format = 0, nTrks = 1, PulsesPerQuarterNote = 96,
      Tracks = Some [\<lparr>Events =
        [Some \<lparr>deltaTime = 0, interface = Midi_Event_Type_NoteOn,
               data = Data_NoteEvent 0 60 0 0x90\<rparr>]\<rparr>]\<rparr>"


text \<open>
  The note struct behind an event pointer (\<open>channel\<close>, \<open>key\<close>, \<open>velocity\<close>, \<open>OnOff\<close>),
  and whether the event is a Note On or a Note Off by its \<open>interface\<close>.
\<close>

definition note_data :: "MidiFile \<Rightarrow> event_ptr \<Rightarrow> (u8 \<times> u8 \<times> u8 \<times> u8) option" where
  "note_data midi p =
     (case deref midi p of
        None \<Rightarrow> None
      | Some ev \<Rightarrow>
          (case data ev of
             Data_NoteEvent channel key velocity OnOff \<Rightarrow> Some (channel, key, velocity, OnOff)
           | _ \<Rightarrow> None))"

definition is_note_event :: "MidiFile \<Rightarrow> event_ptr \<Rightarrow> bool" where
  "is_note_event midi p =
     (case deref midi p of
        None \<Rightarrow> False
      | Some ev \<Rightarrow>
          interface ev = Midi_Event_Type_NoteOff \<or> interface ev = Midi_Event_Type_NoteOn)"


definition ends_note :: "MidiFile \<Rightarrow> event_ptr \<times> u16 \<times> u32 \<times> u32 \<Rightarrow> u16 \<Rightarrow> u8 \<Rightarrow> u8 \<Rightarrow> bool" where
  "ends_note midi c trackIndex channel key =
     (is_note_event midi (fst c) \<and>
      (case note_data midi (fst c) of
         None \<Rightarrow> False
       | Some (ch, k, v, oo) \<Rightarrow>
           fst (snd c) = trackIndex \<and> ch = channel \<and> k = key
           \<and> (oo = type_byte Midi_Event_Type_NoteOff \<or> v = 0)))"

text \<open>
  An entry of the time map that is still open for \<open>(track, channel, key)\<close>, and an
  entry made from a Note On event (\<open>OnOff = 0x90\<close>, as the decoder stores it).
\<close>

definition open_entry :: "MidiFile \<Rightarrow> u16 \<Rightarrow> u8 \<Rightarrow> u8 \<Rightarrow> MidiAbsoluteTimeMap \<Rightarrow> bool" where
  "open_entry midi trackIndex channel key e =
     (OffEvent e = None \<and> track e = trackIndex
      \<and> (case note_data midi (OnEvent e) of
            None \<Rightarrow> False
          | Some (c, k, v, oo) \<Rightarrow> c = channel \<and> k = key))"

definition note_on_entry :: "MidiFile \<Rightarrow> MidiAbsoluteTimeMap \<Rightarrow> bool" where
  "note_on_entry midi e =
     (case note_data midi (OnEvent e) of
        None \<Rightarrow> False
      | Some (c, k, v, oo) \<Rightarrow> oo = type_byte Midi_Event_Type_NoteOn)"


text \<open>
  A one-track file with two notes started and one of them ended: Note On key 60, Note On
  key 62, Note Off key 60, End of Track.
\<close>

definition two_notes_file :: MidiFile where
  "two_notes_file =
     \<lparr>Format = 0, nTrks = 1, PulsesPerQuarterNote = 96,
      Tracks = Some [\<lparr>Events =
        [Some \<lparr>deltaTime = 0, interface = Midi_Event_Type_NoteOn,
               data = Data_NoteEvent 0 60 64 0x90\<rparr>,
         Some \<lparr>deltaTime = 10, interface = Midi_Event_Type_NoteOn,
               data = Data_NoteEvent 0 62 64 0x90\<rparr>,
         Some \<lparr>deltaTime = 10, interface = Midi_Event_Type_NoteOff,
               data = Data_NoteEvent 0 60 0 0x80\<rparr>,
         Some \<lparr>deltaTime = 0, interface = Midi_Event_Type_EndOfTrack, data = Data_Empty\<rparr>]\<rparr>]\<rparr>"

text \<open>
  A one-track file in which a note is started, then ended by a Note On with velocity
  0, and a Note Off for the same key follows.
\<close>

definition velocity_zero_file :: MidiFile where
  "velocity_zero_file =
     \<lparr>Format = 0, nTrks = 1, PulsesPerQuarterNote = 96,
      Tracks = Some [\<lparr>Events =
        [Some \<lparr>deltaTime = 0, interface = Midi_Event_Type_NoteOn,
               data = Data_NoteEvent 0 60 64 0x90\<rparr>,
         Some \<lparr>deltaTime = 10, interface = Midi_Event_Type_NoteOn,
               data = Data_NoteEvent 0 60 0 0x90\<rparr>,
         Some \<lparr>deltaTime = 10, interface = Midi_Event_Type_NoteOff,
               data = Data_NoteEvent 0 60 64 0x80\<rparr>]\<rparr>]\<rparr>"

section \<open>Properties of the variable-length codec\<close>

declare vlq_count.simps [simp del]

lemma dval_snoc: "dval a (bs @ [b]) = (dval a bs + dig b) * 128"
  by (induction bs arbitrary: a) simp_all

lemma cont_byte_dig:
  fixes b :: u8
  assumes "128 \<le> b"
  shows "(ucast b :: u32) - 128 = of_nat (dig b)"
proof -
  have le: "128 \<le> unat b" using assms by (simp add: word_le_nat_alt)
  have lt: "unat b < 256" using unsigned_less [of b, where ?'a = nat] by simp
  have "dig b = unat b - 128" using le lt by (simp add: dig_def mod_if le_mod_geq)
  moreover have "(ucast b :: u32) = of_nat (unat b)" by simp
  ultimately show ?thesis using le by (simp add: of_nat_diff)
qed

lemma last_byte_dig:
  fixes b :: u8
  assumes "b < 128"
  shows "dig b = unat b"
  using assms by (simp add: dig_def word_less_nat_alt)


lemma RVL_wellformed:
  "\<forall>b \<in> set cs. 128 \<le> b \<Longrightarrow> l < 128 \<Longrightarrow> sr + int (length cs) < uint bufflen \<Longrightarrow>
   ReadVariableLength_loop (cs @ l # rest) bufflen sr (of_nat a)
     = Ok (sr + int (length cs) + 1, of_nat (dval a cs + unat l))"
proof (induction cs arbitrary: sr a)
  case Nil
  then show ?case by simp
next
  case (Cons c cs)
  have c: "128 \<le> c" using Cons.prems by simp
  then have nc: "\<not> c < 128" by (simp add: not_less)
  have step: "(of_nat a + (ucast c - 128)) * 128 = (of_nat ((a + dig c) * 128) :: u32)"
    by (simp add: cont_byte_dig [OF c])
  have "ReadVariableLength_loop ((c # cs) @ l # rest) bufflen sr (of_nat a)
        = ReadVariableLength_loop (cs @ l # rest) bufflen (sr + 1) (of_nat ((a + dig c) * 128))"
    using Cons.prems nc step by simp
  also have "\<dots> = Ok (sr + 1 + int (length cs) + 1, of_nat (dval ((a + dig c) * 128) cs + unat l))"
    using Cons.prems by (intro Cons.IH) simp_all
  finally show ?case by simp
qed


lemma RVL_shape:
  "ReadVariableLength_loop x bufflen sr out = Ok (n, v) \<Longrightarrow> n \<noteq> - 1 \<Longrightarrow>
   \<exists>cs l rest. x = cs @ l # rest \<and> (\<forall>b \<in> set cs. 128 \<le> b) \<and> l < 128
      \<and> n = sr + int (length cs) + 1 \<and> sr + int (length cs) < uint bufflen"
proof (induction x arbitrary: sr out)
  case Nil
  then show ?case by (simp split: if_splits)
next
  case (Cons c x)
  show ?case
  proof (cases "c < 128")
    case True
    then have "n = sr + 1" and "sr < uint bufflen" using Cons.prems by (auto split: if_splits)
    then show ?thesis using True by (intro exI [of _ "[]"] exI [of _ c] exI [of _ x]) simp
  next
    case False
    then have lt: "sr < uint bufflen"
      and rec: "ReadVariableLength_loop x bufflen (sr + 1) ((out + (ucast c - 128)) * 128) = Ok (n, v)"
      using Cons.prems by (auto split: if_splits)
    from Cons.IH [OF rec Cons.prems(2)] obtain cs l rest where
      "x = cs @ l # rest" "\<forall>b \<in> set cs. 128 \<le> b" "l < 128"
      "n = sr + 1 + int (length cs) + 1" "sr + 1 + int (length cs) < uint bufflen" by blast
    then show ?thesis using False
      by (intro exI [of _ "c # cs"] exI [of _ l] exI [of _ rest]) auto
  qed
qed


lemma vlq_fill_acc: "vlq_fill k v acc = vlq_fill k v [] @ acc"
proof (induction k arbitrary: v acc)
  case 0
  then show ?case by simp
next
  case (Suc k)
  show ?case
    using Suc.IH [of "v div 128" "ucast (((v div 128) AND 0x7F) OR 0x80) # acc"]
          Suc.IH [of "v div 128" "[ucast (((v div 128) AND 0x7F) OR 0x80)]"]
    by simp
qed

lemma vlq_fill_Suc:
  "vlq_fill (Suc k) v [] = vlq_fill k (v div 128) [] @ [ucast (((v div 128) AND 0x7F) OR 0x80)]"
  using vlq_fill_acc [of k "v div 128" "[ucast (((v div 128) AND 0x7F) OR 0x80)]"] by simp

lemma and7f: "(x :: u32) AND 0x7F = take_bit 7 x"
proof -
  have "(0x7F :: u32) = mask 7" by (simp add: mask_eq_exp_minus_1)
  then show ?thesis by (simp add: take_bit_eq_mask)
qed

lemma unat_and7f: "unat ((x :: u32) AND 0x7F) = unat x mod 128"
  by (simp add: and7f unsigned_take_bit_eq take_bit_eq_mod unat_mod)

lemma unat_or80: "unat (((x :: u32) AND 0x7F) OR 0x80) = unat x mod 128 + 128"
proof -
  have "((x AND 0x7F) AND 0x80) = 0"
    by (simp add: and.assoc)
  then have "(x AND 0x7F) OR 0x80 = (x AND 0x7F) + 0x80"
    using word_plus_and_or [of "x AND 0x7F" "0x80"] by simp
  moreover have "unat ((x AND 0x7F) + 0x80) = unat (x AND 0x7F) + 128"
    by (simp add: unat_word_ariths unat_and7f)
  ultimately show ?thesis by (simp add: unat_and7f)
qed

lemma last_byte_val:
  fixes x :: u32
  shows "unat (ucast (x AND 0x7F) :: u8) = unat x mod 128"
  by (simp add: unsigned_ucast_eq take_bit_eq_mod unat_and7f)

lemma cont_byte_unat:
  fixes x :: u32
  shows "unat (ucast ((x AND 0x7F) OR 0x80) :: u8) = unat x mod 128 + 128"
  by (simp add: unsigned_ucast_eq take_bit_eq_mod unat_or80)

lemma cont_byte_ge:
  fixes x :: u32
  shows "128 \<le> (ucast ((x AND 0x7F) OR 0x80) :: u8)"
  by (simp add: word_le_nat_alt cont_byte_unat)

lemma cont_byte_val:
  fixes x :: u32
  shows "dig (ucast ((x AND 0x7F) OR 0x80)) = unat x mod 128"
  by (simp add: dig_def cont_byte_unat)

lemma last_byte_lt:
  fixes x :: u32
  shows "(ucast (x AND 0x7F) :: u8) < 128"
  by (simp add: word_less_nat_alt last_byte_val)

lemma vlq_fill_length: "length (vlq_fill k v []) = k"
  by (induction k arbitrary: v) (simp_all add: vlq_fill_Suc del: vlq_fill.simps(2))

lemma vlq_fill_cont: "\<forall>b \<in> set (vlq_fill k v []). 128 \<le> b"
  by (induction k arbitrary: v) (simp_all add: vlq_fill_Suc cont_byte_ge del: vlq_fill.simps(2))

lemma vlq_fill_dval:
  "dval a (vlq_fill k v []) = a * 128 ^ k + 128 * ((unat v div 128) mod 128 ^ k)"
proof (induction k arbitrary: v)
  case 0
  then show ?case by simp
next
  case (Suc k)
  define x where "x = unat v div 128"
  have x: "unat (v div 128) = x" by (simp add: x_def unat_div)
  have "dval a (vlq_fill (Suc k) v []) =
        (a * 128 ^ k + 128 * ((x div 128) mod 128 ^ k) + x mod 128) * 128"
    by (simp add: vlq_fill_Suc dval_snoc Suc.IH cont_byte_val x del: vlq_fill.simps(2))
  moreover have "128 * ((x div 128) mod 128 ^ k) + x mod 128 = x mod 128 ^ Suc k"
    by (simp add: mod_mult2_eq)
  ultimately show ?case by (simp add: x_def algebra_simps)
qed

lemma vlq_count_spec:
  "\<exists>k. vlq_count v i = i + of_nat k \<and> unat v < 128 ^ Suc k \<and> (0 < k \<longrightarrow> 128 ^ k \<le> unat v) \<and> k \<le> 4"
proof (induction v i rule: vlq_count.induct)
  case (1 v i)
  show ?case
  proof (cases "v div 128 > 0")
    case False
    then have "v div 128 = 0" by (simp add: word_greater_zero_iff)
    then have "unat (v div 128) = 0" by simp
    then have "unat v div 128 = 0" by (simp add: unat_div)
    then have "unat v < 128" by simp
    then show ?thesis using False by (intro exI [of _ 0]) (simp add: vlq_count.simps [of v i])
  next
    case True
    then have "unat (v div 128) \<noteq> 0" by (simp add: unat_eq_0 word_greater_zero_iff)
    then have pos: "0 < unat v div 128" by (simp add: unat_div)
    from "1.IH" [OF True] obtain k where k:
      "vlq_count (v div 128) (i + 1) = i + 1 + of_nat k" "unat (v div 128) < 128 ^ Suc k"
      "0 < k \<longrightarrow> 128 ^ k \<le> unat (v div 128)" "k \<le> 4" by blast
    have lt: "unat v < 128 ^ Suc (Suc k)" using k(2) by (simp add: unat_div) 
    have ge: "128 ^ Suc k \<le> unat v"
    proof (cases "0 < k")
      case True
      then have "128 ^ k \<le> unat v div 128" using k(3) by (simp add: unat_div)
      then show ?thesis by simp
    next
      case False
      then show ?thesis using pos by simp
    qed
    have "unat v < 2 ^ 32" using unsigned_less [of v, where ?'a = nat] by simp
    then have small: "(128::nat) ^ Suc k < 2 ^ 32" using ge by linarith
    have k4: "Suc k \<le> 4"
    proof (rule ccontr)
      assume "\<not> Suc k \<le> 4"
      then have "5 \<le> Suc k" by simp
      then have "(128::nat) ^ 5 \<le> 128 ^ Suc k" by (intro power_increasing) simp_all
      then show False using small by simp
    qed
    have "vlq_count v i = i + of_nat (Suc k)" using True k(1) by (simp add: vlq_count.simps [of v i])
    then show ?thesis using lt ge k4 by (intro exI [of _ "Suc k"]) simp
  qed
qed


lemma dig_lt: "dig b < 128"
  by (simp add: dig_def)

lemma dval_bound: "dval 0 cs + 128 \<le> 128 ^ Suc (length cs)"
proof (induction cs rule: rev_induct)
  case Nil
  then show ?case by simp
next
  case (snoc c cs)
  have "dval 0 (cs @ [c]) + 128 \<le> (dval 0 cs + 128) * 128"
    using dig_lt [of c] by (simp add: dval_snoc)
  also have "\<dots> \<le> 128 ^ Suc (length cs) * 128"
    using snoc.IH by (intro mult_right_mono) simp_all
  finally show ?case by simp
qed

lemma dval_inj:
  "length cs = length cs' \<Longrightarrow> dval 0 cs + d = dval 0 cs' + d' \<Longrightarrow> d < 128 \<Longrightarrow> d' < 128 \<Longrightarrow>
   map dig cs = map dig cs' \<and> d = d'"
proof (induction cs arbitrary: cs' d d' rule: rev_induct)
  case Nil
  then show ?case by simp
next
  case (snoc x xs)
  from snoc.prems(1) obtain y ys where cs': "cs' = ys @ [y]"
    by (cases cs' rule: rev_cases) simp_all
  have len: "length xs = length ys" using snoc.prems(1) cs' by simp
  define X where "X = dval 0 xs + dig x"
  define Y where "Y = dval 0 ys + dig y"
  have eq: "X * 128 + d = Y * 128 + d'"
    using snoc.prems(2) cs' by (simp add: dval_snoc X_def Y_def)
  have "(X * 128 + d) mod 128 = d" using snoc.prems(3) by simp
  moreover have "(Y * 128 + d') mod 128 = d'" using snoc.prems(4) by simp
  ultimately have d: "d = d'" using eq by simp
  have "(X * 128 + d) div 128 = X" using snoc.prems(3) by simp
  moreover have "(Y * 128 + d') div 128 = Y" using snoc.prems(4) by simp
  ultimately have "X = Y" using eq by simp
  then have "dval 0 xs + dig x = dval 0 ys + dig y" by (simp add: X_def Y_def)
  from snoc.IH [OF len this dig_lt dig_lt] show ?case using d cs' by simp
qed

lemma cont_byte_eq:
  fixes b b' :: u8
  assumes "128 \<le> b" "128 \<le> b'" "dig b = dig b'"
  shows "b = b'"
proof -
  have "128 \<le> unat b" "128 \<le> unat b'" using assms by (simp_all add: word_le_nat_alt)
  moreover have "unat b < 256" "unat b' < 256"
    using unsigned_less [of b, where ?'a = nat] unsigned_less [of b', where ?'a = nat] by simp_all
  ultimately have "dig b = unat b - 128" "dig b' = unat b' - 128" 
    by (simp_all add: dig_def mod_if le_mod_geq)
  with assms(3) \<open>128 \<le> unat b\<close> \<open>128 \<le> unat b'\<close> have "unat b = unat b'" by simp
  then show ?thesis by (simp add: word_unat_eq_iff)
qed

lemma cont_bytes_eq:
  assumes "\<forall>b \<in> set cs. 128 \<le> b" "\<forall>b \<in> set cs'. 128 \<le> b" "map dig cs = map dig cs'"
  shows "cs = cs'"
proof -
  have "inj_on dig (set cs \<union> set cs')"
    using assms(1,2) by (intro inj_onI) (auto intro: cont_byte_eq)
  then show ?thesis using assms(3) by (simp add: inj_on_map_eq_map)
qed

lemma decode_full:
  assumes "ReadVariableLength bs (of_nat (length bs)) = Ok (int (length bs), v)" "length bs \<le> 4"
  shows "\<exists>cs l. bs = cs @ [l] \<and> (\<forall>b \<in> set cs. 128 \<le> b) \<and> l < 128 \<and> unat v = dval 0 cs + unat l"
proof -
  have n: "int (length bs) \<noteq> - 1" by simp
  from RVL_shape [OF assms(1) [unfolded ReadVariableLength_def] n]
  obtain cs l rest where sh: "bs = cs @ l # rest" "\<forall>b \<in> set cs. 128 \<le> b" "l < 128"
    "int (length bs) = 0 + int (length cs) + 1" "0 + int (length cs) < uint (of_nat (length bs) :: u32)"
    by blast
  have rest: "rest = []" using sh(1,4) by simp
  have "ReadVariableLength_loop (cs @ l # rest) (of_nat (length bs)) 0 (of_nat 0)
          = Ok (0 + int (length cs) + 1, of_nat (dval 0 cs + unat l))"
    using sh(2,3,5) by (intro RVL_wellformed) simp_all
  then have v: "v = of_nat (dval 0 cs + unat l)"
    using assms(1) sh(1) by (simp add: ReadVariableLength_def)
  have "unat l < 128" using sh(3) by (simp add: word_less_nat_alt)
  then have "dval 0 cs + unat l < 128 ^ Suc (length cs)" using dval_bound [of cs] by simp
  also have "(128::nat) ^ Suc (length cs) \<le> 128 ^ 4"
    using assms(2) sh(1) rest by (intro power_increasing) simp_all
  finally have "dval 0 cs + unat l < 2 ^ 32" by simp
  then have "unat v = dval 0 cs + unat l" by (intro of_nat_inverse [OF v [symmetric]]) simp
  then show ?thesis using sh(1,2,3) rest by blast
qed

lemma decode_full_bound:
  assumes "ReadVariableLength bs (of_nat (length bs)) = Ok (int (length bs), v)" "length bs \<le> 4"
  shows "unat v < 128 ^ length bs"
proof -
  from decode_full [OF assms] obtain cs l where
    d: "bs = cs @ [l]" "l < 128" "unat v = dval 0 cs + unat l" by blast
  have "unat l < 128" using d(2) by (simp add: word_less_nat_alt)
  then show ?thesis using dval_bound [of cs] d(1,3) by simp
qed

lemma decode_full_unique:
  assumes "ReadVariableLength bs (of_nat (length bs)) = Ok (int (length bs), v)"
    and "ReadVariableLength bs' (of_nat (length bs')) = Ok (int (length bs'), v)"
    and "length bs = length bs'" "length bs \<le> 4"
  shows "bs = bs'"
proof -
  from decode_full [OF assms(1,4)] obtain cs l where
    d: "bs = cs @ [l]" "\<forall>b \<in> set cs. 128 \<le> b" "l < 128" "unat v = dval 0 cs + unat l" by blast
  from decode_full [OF assms(2)] assms(3,4) obtain cs' l' where
    d': "bs' = cs' @ [l']" "\<forall>b \<in> set cs'. 128 \<le> b" "l' < 128" "unat v = dval 0 cs' + unat l'"
    by auto
  have len: "length cs = length cs'" using assms(3) d(1) d'(1) by simp
  have "unat l < 128" "unat l' < 128" using d(3) d'(3) by (simp_all add: word_less_nat_alt)
  with dval_inj [OF len, of "unat l" "unat l'"] d(4) d'(4)
  have "map dig cs = map dig cs'" "unat l = unat l'" by simp_all
  then have "cs = cs'" "l = l'" using cont_bytes_eq [OF d(2) d'(2)] by (simp_all add: word_unat_eq_iff)
  then show ?thesis using d(1) d'(1) by simp
qed

lemma WriteVariableLength_bytes:
  assumes "5 \<le> bufflen \<or> (4 \<le> bufflen \<and> unat v < 2 ^ 28)"
  shows "\<exists>k. WriteVariableLength bufflen v = Some (vlq_fill k v [] @ [ucast (v AND 0x7F)])
           \<and> unat v < 128 ^ Suc k \<and> (0 < k \<longrightarrow> 128 ^ k \<le> unat v) \<and> k \<le> 4"
proof -
  from vlq_count_spec [of v 0] obtain k where k:
    "vlq_count v 0 = 0 + of_nat k" "unat v < 128 ^ Suc k" "0 < k \<longrightarrow> 128 ^ k \<le> unat v" "k \<le> 4"
    by blast
  have uk: "unat (of_nat k :: u32) = k" using k(4) by (simp add: unat_of_nat)
  have uk1: "unat (of_nat k + 1 :: u32) = k + 1"
    using k(4) by (simp add: unat_word_ariths uk)
  have "k + 1 \<le> unat bufflen"
  proof (cases "5 \<le> bufflen")
    case True
    then have "5 \<le> unat bufflen" by (simp add: word_le_nat_alt)
    then show ?thesis using k(4) by simp
  next
    case False
    then have b: "4 \<le> unat bufflen" and small: "unat v < 2 ^ 28"
      using assms by (simp_all add: word_le_nat_alt)
    have "k \<noteq> 4"
    proof
      assume "k = 4"
      then have "(128::nat) ^ 4 \<le> unat v" using k(3) by simp
      then show False using small by simp
    qed
    then show ?thesis using k(4) b by simp
  qed
  then have "\<not> bufflen < of_nat k + 1" by (simp add: word_less_nat_alt uk1)
  then have "WriteVariableLength bufflen v = Some (vlq_fill k v [ucast (v AND 0x7F)])"
    by (simp add: WriteVariableLength_def k(1) uk Let_def)
  then show ?thesis using k(2,3,4) vlq_fill_acc [of k v "[ucast (v AND 0x7F)]"] by auto
qed

lemma vlq_fill_decodes:
  assumes "unat v < 128 ^ Suc k" "int k < uint bufflen"
  shows "ReadVariableLength (vlq_fill k v [] @ [ucast (v AND 0x7F)] @ rest) bufflen
           = Ok (int k + 1, v)"
proof -
  have "ReadVariableLength_loop (vlq_fill k v [] @ ucast (v AND 0x7F) # rest) bufflen 0 (of_nat 0)
        = Ok (0 + int (length (vlq_fill k v [])) + 1,
              of_nat (dval 0 (vlq_fill k v []) + unat (ucast (v AND 0x7F) :: u8)))"
    using assms(2) by (intro RVL_wellformed) (simp_all add: vlq_fill_cont last_byte_lt vlq_fill_length)
  moreover have "dval 0 (vlq_fill k v []) + unat (ucast (v AND 0x7F) :: u8) = unat v"
  proof -
    have "128 * ((unat v div 128) mod 128 ^ k) + unat v mod 128 = unat v mod 128 ^ Suc k"
      by (simp add: mod_mult2_eq)
    then show ?thesis using assms(1) by (simp add: vlq_fill_dval last_byte_val)
  qed
  ultimately show ?thesis by (simp add: ReadVariableLength_def vlq_fill_length)
qed


text \<open>
  Claim C4. For every 32-bit value \<open>v \<le> 2^28 - 1\<close>, \<open>WriteVariableLength\<close> (with room
  for at least four bytes) succeeds, \<open>ReadVariableLength\<close> applied to the bytes written
  returns their number and exactly \<open>v\<close>, every other encoding of \<open>v\<close> is at least as long
  and one of the same length is the same string, and \<open>0\<close> is written as the single byte
  \<open>0x00\<close>.
\<close>

theorem vlq_roundtrip_minimal:
  fixes v wlen :: u32
  assumes "v \<le> 2 ^ 28 - 1" and "4 \<le> wlen"
  shows "\<exists>enc. WriteVariableLength wlen v = Some enc
     \<and> (\<forall>rest rlen. int (length enc) \<le> uint rlen \<longrightarrow>
            ReadVariableLength (enc @ rest) rlen = Ok (int (length enc), v))
     \<and> (\<forall>bs. is_vlq_of bs v \<longrightarrow> length enc \<le> length bs \<and> (length bs = length enc \<longrightarrow> bs = enc))
     \<and> WriteVariableLength wlen 0 = Some [0]"
proof -
  have small: "unat v < 2 ^ 28" using assms(1) by (simp add: word_le_nat_alt)
  from WriteVariableLength_bytes [of wlen v] assms(2) small obtain k where k:
    "WriteVariableLength wlen v = Some (vlq_fill k v [] @ [ucast (v AND 0x7F)])"
    "unat v < 128 ^ Suc k" "0 < k \<longrightarrow> 128 ^ k \<le> unat v" "k \<le> 4" by blast
  define enc where "enc = vlq_fill k v [] @ [ucast (v AND 0x7F)]"
  have len: "length enc = Suc k" by (simp add: enc_def vlq_fill_length)
  have k3: "k \<le> 3"
  proof (rule ccontr)
    assume "\<not> k \<le> 3"
    then have "k = 4" using k(4) by simp
    then have "(128::nat) ^ 4 \<le> unat v" using k(3) by simp
    then show False using small by simp
  qed
  have dec: "ReadVariableLength (enc @ rest) rlen = Ok (int (length enc), v)"
    if "int (length enc) \<le> uint rlen" for rest rlen
    using vlq_fill_decodes [OF k(2), of rlen rest] that by (simp add: enc_def len vlq_fill_length)
  have "Suc k < 2 ^ LENGTH(32)" using k3 by simp
  then have "unat (of_nat (Suc k) :: u32) = Suc k" by (rule of_nat_inverse [OF refl])
  then have "uint (of_nat (Suc k) :: u32) = int (Suc k)" by (simp only: uint_nat)
  then have enc_vlq: "is_vlq_of enc v"
    using dec [of "of_nat (length enc)" "[]"] by (simp add: is_vlq_of_def len)
  have min: "length enc \<le> length bs \<and> (length bs = length enc \<longrightarrow> bs = enc)" if bs: "is_vlq_of bs v" for bs
  proof (cases "length bs \<le> 4")
    case False
    then show ?thesis using len k3 by simp
  next
    case True
    note b = bs [unfolded is_vlq_of_def]
    from decode_full [OF b True] have ne: "1 \<le> length bs" by auto
    have bound: "unat v < 128 ^ length bs" by (rule decode_full_bound [OF b True])
    have le: "Suc k \<le> length bs"
    proof (rule ccontr)
      assume "\<not> Suc k \<le> length bs"
      then have "length bs \<le> k" and "0 < k" using ne by simp_all
      then have "(128::nat) ^ length bs \<le> 128 ^ k" by (intro power_increasing) simp_all
      moreover have "(128::nat) ^ k \<le> unat v" using k(3) \<open>0 < k\<close> by blast
      ultimately show False using bound by linarith
    qed
    have "bs = enc" if "length bs = length enc"
      using decode_full_unique [OF b enc_vlq [unfolded is_vlq_of_def] that True] .
    then show ?thesis using le len by simp
  qed
  have zero: "WriteVariableLength wlen 0 = Some [0]"
  proof -
    have "\<not> wlen < 1" using assms(2) by (simp add: word_less_nat_alt word_le_nat_alt)
    then show ?thesis by (simp add: WriteVariableLength_def vlq_count.simps [of 0 0])
  qed
  show ?thesis using k(1) dec min zero unfolding enc_def [symmetric] by blast
qed

theorem vlq_roundtrip_minimal_witness:
  "(300 :: u32) \<le> 2 ^ 28 - 1 \<and> (4 :: u32) \<le> 5
   \<and> WriteVariableLength 5 300 = Some [0x82, 0x2C]
   \<and> ReadVariableLength [0x82, 0x2C] 2 = Ok (2, 300)
   \<and> is_vlq_of [0x80, 0x82, 0x2C] 300
   \<and> (\<exists>enc. WriteVariableLength 5 300 = Some enc \<and> length enc \<le> length [0x80, 0x82, 0x2C :: u8])"
proof -
  have h1: "(300 :: u32) \<le> 2 ^ 28 - 1" by simp
  have h2: "(4 :: u32) \<le> 5" by simp
  have enc: "WriteVariableLength 5 300 = Some [0x82, 0x2C]" by code_simp
  have dec: "ReadVariableLength [0x82, 0x2C] 2 = Ok (2, 300)" by code_simp
  have other: "is_vlq_of [0x80, 0x82, 0x2C] 300" by code_simp
  from vlq_roundtrip_minimal [OF h1 h2] other
  have "\<exists>enc. WriteVariableLength 5 300 = Some enc \<and> length enc \<le> length [0x80, 0x82, 0x2C :: u8]"
    by blast
  then show ?thesis using h1 h2 enc dec other by blast
qed




section \<open>Text payloads\<close>




section \<open>Unknown chunks\<close>

text \<open>
  Claim C7, as stated, fails: a well-formed header followed by a chunk tagged \<open>XXXX\<close>
  (and by a well-formed track) makes \<open>MidiFile_Open\<close> return \<open>NULL\<close>.
\<close>

theorem MidiFile_Open_unknown_chunk_counterexample:
  "MidiFile_Open 4
     ([0x4D, 0x54, 0x68, 0x64, 0, 0, 0, 6, 0, 1, 0, 1, 0, 0x60]
      @ [0x58, 0x58, 0x58, 0x58, 0, 0, 0, 0]
      @ [0x4D, 0x54, 0x72, 0x6B, 0, 0, 0, 4, 0, 0xFF, 0x2F, 0]) = Some (Ok None)"
  by code_simp

text \<open>
  Claim C7, amended. When the chunk loop of \<open>MidiFile_Open\<close> meets, in whatever state,
  a chunk whose four-byte tag is neither \<open>MThd\<close> nor \<open>MTrk\<close>, the call takes
  \<open>goto error\<close> and returns \<open>NULL\<close>: nothing after the tag is parsed and the load fails.
\<close>

theorem MidiFile_Open_unknown_chunk:
  assumes "length tag = 4" "tag \<noteq> MIDI_CHUNK_HEADER" "tag \<noteq> MIDI_CHUNK_TRACK"
  shows "MidiFile_Open_loop fuel mf trackNumber (tag @ rest) = Some (Ok None)"
proof -
  from assms(1) obtain t0 t1 t2 t3 where tag: "tag = [t0, t1, t2, t3]"
    by (cases tag; cases "tl tag"; cases "tl (tl tag)"; cases "tl (tl (tl tag))") auto
  have "MidiFile_Open_chunk fuel mf trackNumber (tag @ rest) = Chunk_Stop (Some (Ok None))"
    using assms(2,3) by (simp add: MidiFile_Open_chunk_def tag Let_def)
  then show ?thesis by simp
qed

theorem MidiFile_Open_unknown_chunk_witness:
  "length [0x58, 0x58, 0x58, 0x58 :: u8] = 4 \<and> [0x58, 0x58, 0x58, 0x58] \<noteq> MIDI_CHUNK_HEADER
   \<and> [0x58, 0x58, 0x58, 0x58] \<noteq> MIDI_CHUNK_TRACK
   \<and> MidiFile_Open_loop 0 \<lparr>Format = 1, nTrks = 1, PulsesPerQuarterNote = 96,
                             Tracks = Some [\<lparr>Events = []\<rparr>]\<rparr> 0
        ([0x58, 0x58, 0x58, 0x58] @ [0, 0, 0, 0]) = Some (Ok None)"
proof -
  have h1: "length [0x58, 0x58, 0x58, 0x58 :: u8] = 4" by simp
  have h2: "[0x58, 0x58, 0x58, 0x58] \<noteq> MIDI_CHUNK_HEADER" by (simp add: MIDI_CHUNK_HEADER_def)
  have h3: "[0x58, 0x58, 0x58, 0x58] \<noteq> MIDI_CHUNK_TRACK" by (simp add: MIDI_CHUNK_TRACK_def)
  show ?thesis using MidiFile_Open_unknown_chunk [OF h1 h2 h3] h1 h2 h3 by blast
qed

section \<open>Saving and reopening\<close>

lemma smpte_decoded: "MidiFile_Open 2 smpte_bytes = Some (Ok (Some smpte_file))"
  by code_simp

lemma smpte_encoded: "MidiFile_Save smpte_file = Ok smpte_saved"
  by code_simp

lemma MidiEvent_Create_0:
  "MidiEvent_Create 0 dt True
     = Some \<lparr>deltaTime = dt, interface = Midi_Event_Type_SequenceNumber, data = Data_Uninit\<rparr>"
  by (simp add: MidiEvent_Create_def InterfaceTable_def)

lemma smpte_saved_track_loops:
  "MidiTrack_Read_loop fuel [0, 0, 0xFF, 0x2F, 0] 5 0 0 tr = None"
proof (induction fuel arbitrary: tr)
  case 0
  then show ?case by simp
next
  case (Suc fuel)
  have vlq: "ReadVariableLength [0, 0, 0xFF, 0x2F, 0] 5 = Ok (1, 0)"
    by (simp add: ReadVariableLength_def)
  have st: "MidiTrack_Read_status [0, 0, 0xFF, 0x2F, 0] 1 0 = Some (0, False, 1, 0)"
    by (simp add: MidiTrack_Read_status_def byte_at_def)
  have rd: "read_data_SequenceNumber [0, 0xFF, 0x2F, 0] 0 = Ok (- 1, None)"
    by (simp add: read_data_SequenceNumber_def)
  show ?case
    by (simp add: vlq st rd MidiEvent_Create_0 Suc.IH)
qed

text \<open>
  Claim C3 at a file with an SMPTE-offset event. The decoder produces \<open>smpte_file\<close>
  from \<open>smpte_bytes\<close>; \<open>MidiFile_Save\<close> writes for the SMPTE-offset event its delta
  time and nothing else (\<open>write_data_SMPTEoffset\<close> returns 0), so the track body is
  \<open>00 00 FF 2F 00\<close>; on these bytes the track reader takes the second \<open>00\<close> as a
  running-status data byte, creates a Sequence Number event whose reader returns \<open>-1\<close>,
  and is back at offset 0: \<open>MidiFile_Open\<close> does not return, whatever the fuel, and in
  particular does not give back the file that was saved.
\<close>

theorem smpte_roundtrip_fails:
  "MidiFile_Open 2 smpte_bytes = Some (Ok (Some smpte_file))
   \<and> MidiFile_Save smpte_file = Ok smpte_saved
   \<and> MidiFile_Open fuel smpte_saved = None"
proof -
  have hdr: "MidiFile_Open_chunk fuel \<lparr>Format = 0, nTrks = 0, PulsesPerQuarterNote = 0, Tracks = None\<rparr> 0
               smpte_saved
             = Chunk_Continue \<lparr>Format = 1, nTrks = 1, PulsesPerQuarterNote = 96,
                                Tracks = Some [\<lparr>Events = []\<rparr>]\<rparr> 0
                 [0x4D, 0x54, 0x72, 0x6B, 0, 0, 0, 5, 0, 0, 0xFF, 0x2F, 0]"
    by (simp add: MidiFile_Open_chunk_def MidiFile_Open_header_def smpte_saved_def
          MIDI_CHUNK_HEADER_def u32fromarray_def u16fromarray_def Let_def)
  have trk: "MidiFile_Open_chunk fuel \<lparr>Format = 1, nTrks = 1, PulsesPerQuarterNote = 96,
                                Tracks = Some [\<lparr>Events = []\<rparr>]\<rparr> 0
                 [0x4D, 0x54, 0x72, 0x6B, 0, 0, 0, 5, 0, 0, 0xFF, 0x2F, 0]
             = Chunk_Stop None"
    by (simp add: MidiFile_Open_chunk_def MidiFile_Open_track_def MidiTrack_Read_def
          MIDI_CHUNK_HEADER_def MIDI_CHUNK_TRACK_def u32fromarray_def Let_def
          smpte_saved_track_loops)
  have "MidiFile_Open fuel smpte_saved = None"
    by (simp add: MidiFile_Open_def hdr trk)
  then show ?thesis using smpte_decoded smpte_encoded by simp
qed

section \<open>Running status\<close>







section \<open>The tempo clock\<close>

text \<open>
  Claim C2, as stated, fails: with 480 pulses per quarter note and a Set Tempo of
  500000 at tick 0, the tick duration is \<open>500000 / 480 = 1041\<close> in unsigned integer
  division, and after 480 ticks the microsecond counter is \<open>480 * 1041 = 499680\<close>, not
  500000.
\<close>

theorem tempo_clock_counterexample:
  "MidiFile_Play 2 (tempo_file 480 500000 480) 0 None ()
     = Returned \<lparr>waitTicks = [UINT32_MAX], minimumWaitTicks = UINT32_MAX,
                 countFinishedTracks = 1, currentEvent = [2], TickDurationUs = 1041,
                 currentTotalTime_Ticks = 480, currentTotalTime_Usecs = 499680,
                 device_calls = [], sleeps = [0, 499680],
                 cb_calls = [((0, 0), 0, 0, 0), ((0, 1), 0, 480, 499680)], cb_state = ()\<rparr>"
  by code_simp

lemma upt_one: "[0 ..< unat (1 :: u16)] = [0]"
  by simp

lemma min_UINT32_MAX: "min UINT32_MAX (d :: u32) = d"
proof -
  have "(0xFFFFFFFF :: u32) = - 1" by simp
  then have "d \<le> UINT32_MAX" unfolding UINT32_MAX_def by (simp only: word_order.extremum)
  then show ?thesis by (simp add: min_def)
qed

text \<open>
  Claim C2, amended. For a file with a nonzero \<open>PulsesPerQuarterNote\<close> whose track
  holds a Set Tempo event at tick 0 and its next event \<open>d\<close> ticks later, the player
  returns with \<open>TickDurationUs\<close> equal to the tempo divided by the pulses per quarter
  note in unsigned 32-bit integer division, \<open>currentTotalTime_Ticks = d\<close> and
  \<open>currentTotalTime_Usecs\<close> equal to \<open>d\<close> times that truncated quotient (modulo \<open>2^32\<close>):
  for 480, 500000 and 480 ticks, 1041 and 499680.
\<close>

theorem tempo_clock:
  assumes "ppq \<noteq> 0"
  shows "MidiFile_Play (Suc (Suc n)) (tempo_file ppq tempo d) 0 None s
     = Returned \<lparr>waitTicks = [UINT32_MAX], minimumWaitTicks = UINT32_MAX,
                 countFinishedTracks = 1, currentEvent = [2],
                 TickDurationUs = tempo div ucast ppq,
                 currentTotalTime_Ticks = d,
                 currentTotalTime_Usecs = (tempo div ucast ppq) * d,
                 device_calls = [], sleeps = [0, (tempo div ucast ppq) * d],
                 cb_calls = [((0, 0), 0, 0, 0), ((0, 1), 0, d, (tempo div ucast ppq) * d)],
                 cb_state = s\<rparr>"
proof -
  have fire1: "MidiFile_Play_tracks (tempo_file ppq tempo d) 0 trivial_callback 0 [0]
      \<lparr>waitTicks = [0], minimumWaitTicks = UINT32_MAX,
                 countFinishedTracks = 0, currentEvent = [0],
                 TickDurationUs = 2602,
                 currentTotalTime_Ticks = 0, currentTotalTime_Usecs = 0,
                 device_calls = [], sleeps = [0],
                 cb_calls = [], cb_state = s\<rparr>
    = Running \<lparr>waitTicks = [d], minimumWaitTicks = d,
                 countFinishedTracks = 0, currentEvent = [1],
                 TickDurationUs = tempo div ucast ppq,
                 currentTotalTime_Ticks = 0, currentTotalTime_Usecs = 0,
                 device_calls = [], sleeps = [0],
                 cb_calls = [((0, 0), 0, 0, 0)], cb_state = s\<rparr>"
    using assms
    by (simp add: MidiFile_Play_track_def tempo_file_def Let_def
          trivial_callback_def Player_Callback_PlayEvent_def Player_Callback_Abort_def
          Player_Callback_IgnoreEvent_def MidiFile_Play_dispatch_def MidiEvent_GetType_def
          MidiFile_Play_advance_def min_UINT32_MAX)
  have fire2: "MidiFile_Play_tracks (tempo_file ppq tempo d) 0 trivial_callback d [0]
      \<lparr>waitTicks = [d], minimumWaitTicks = UINT32_MAX,
                 countFinishedTracks = 0, currentEvent = [1],
                 TickDurationUs = tempo div ucast ppq,
                 currentTotalTime_Ticks = d, currentTotalTime_Usecs = (tempo div ucast ppq) * d,
                 device_calls = [], sleeps = [0, (tempo div ucast ppq) * d],
                 cb_calls = [((0, 0), 0, 0, 0)], cb_state = s\<rparr>
    = Running \<lparr>waitTicks = [UINT32_MAX], minimumWaitTicks = UINT32_MAX,
                 countFinishedTracks = 1, currentEvent = [2],
                 TickDurationUs = tempo div ucast ppq,
                 currentTotalTime_Ticks = d,
                 currentTotalTime_Usecs = (tempo div ucast ppq) * d,
                 device_calls = [], sleeps = [0, (tempo div ucast ppq) * d],
                 cb_calls = [((0, 0), 0, 0, 0), ((0, 1), 0, d, (tempo div ucast ppq) * d)],
                 cb_state = s\<rparr>"
    by (simp add: MidiFile_Play_track_def tempo_file_def Let_def
          trivial_callback_def Player_Callback_PlayEvent_def Player_Callback_Abort_def
          Player_Callback_IgnoreEvent_def MidiFile_Play_dispatch_def MidiEvent_GetType_def
          MidiFile_Play_advance_def)
  have n1: "nTrks (tempo_file ppq tempo d) = 1" by (simp add: tempo_file_def)
  show ?thesis
    apply (simp only: MidiFile_Play_def MidiFile_Play_init_def option.case)
    apply (subst MidiFile_Play_loop.simps(2))
    apply (simp add: n1 upt_one Let_def fire1 del: MidiFile_Play_tracks.simps MidiFile_Play_loop.simps)
    apply (subst MidiFile_Play_loop.simps(2))
    apply (simp add: n1 upt_one Let_def fire2 del: MidiFile_Play_tracks.simps MidiFile_Play_loop.simps)
    apply (cases n)
    apply (simp_all add: n1)
    done
qed


theorem tempo_clock_witness:
  "(480 :: u16) \<noteq> 0
   \<and> MidiFile_Play (Suc (Suc 0)) (tempo_file 480 500000 480) 0 None ()
     = Returned \<lparr>waitTicks = [UINT32_MAX], minimumWaitTicks = UINT32_MAX,
                 countFinishedTracks = 1, currentEvent = [2], TickDurationUs = 1041,
                 currentTotalTime_Ticks = 480, currentTotalTime_Usecs = 499680,
                 device_calls = [], sleeps = [0, 499680],
                 cb_calls = [((0, 0), 0, 0, 0), ((0, 1), 0, 480, 499680)], cb_state = ()\<rparr>"
proof -
  have h: "(480 :: u16) \<noteq> 0" by simp
  have q: "(500000 :: u32) div ucast (480 :: u16) = 1041" by code_simp
  show ?thesis using tempo_clock [OF h, of 0 500000 480 "()"] h by (simp add: q)
qed

section \<open>The search for the entry to close\<close>



lemma playerCb_find_closes:
  assumes "i < n" "n \<le> length lst" "open_entry midi tr ch key (lst ! i)"
    and "\<forall>j. i < j \<and> j < n \<longrightarrow> \<not> open_entry midi tr ch key (lst ! j)"
    and "list_all (note_on_entry midi) lst"
  shows "playerCb_find midi n p tr us ch key lst
           = Ok (lst[i := (lst ! i)\<lparr>OffEvent := Some p, endTime := us\<rparr>])"
  using assms(1,2,4)
proof (induction n)
  case 0
  then show ?case by simp
next
  case (Suc n)
  have ok: "note_on_entry midi (lst ! n)"
    using assms(5) Suc.prems(2) by (simp add: list_all_length)
  show ?case
  proof (cases "i = n")
    case True
    then show ?thesis
      using assms(3) ok
      by (auto simp: open_entry_def note_on_entry_def note_data_def
            split: option.splits MidiEventData.splits)
  next
    case False
    then have lt: "i < n" using Suc.prems(1) by simp
    have "\<not> open_entry midi tr ch key (lst ! n)" using Suc.prems(3) lt by simp
    moreover have "playerCb_find midi n p tr us ch key lst
           = Ok (lst[i := (lst ! i)\<lparr>OffEvent := Some p, endTime := us\<rparr>])"
      using Suc.IH lt Suc.prems(2,3) by simp
    ultimately show ?thesis
      using ok
      by (auto simp: open_entry_def note_on_entry_def note_data_def
            split: option.splits MidiEventData.splits)
  qed
qed

lemma playerCb_find_none:
  assumes "n \<le> length lst" "\<forall>j < n. \<not> open_entry midi tr ch key (lst ! j)"
    and "list_all (note_on_entry midi) lst"
  shows "playerCb_find midi n p tr us ch key lst = Ok lst"
  using assms(1,2)
proof (induction n)
  case 0
  then show ?case by simp
next
  case (Suc n)
  have ok: "note_on_entry midi (lst ! n)"
    using assms(3) Suc.prems(1) by (simp add: list_all_length)
  have "\<not> open_entry midi tr ch key (lst ! n)" using Suc.prems(2) by simp
  moreover have "playerCb_find midi n p tr us ch key lst = Ok lst"
    using Suc.IH Suc.prems by simp
  ultimately show ?case
    using ok
    by (auto simp: open_entry_def note_on_entry_def note_data_def
          split: option.splits MidiEventData.splits)
qed

section \<open>Invariants of the player\<close>


lemma advance_keeps_cb:
  "MidiFile_Play_advance events t st = Ok st' \<Longrightarrow>
   cb_state st' = cb_state st \<and> cb_calls st' = cb_calls st \<and> device_calls st' = device_calls st
   \<and> TickDurationUs st' = TickDurationUs st"
  by (auto simp: MidiFile_Play_advance_def Let_def split: if_splits option.splits res.splits)

lemma dispatch_tempo_keeps_device:
  "MidiFile_Play_dispatch midi start_usec ev st = Ok st' \<Longrightarrow>
   interface ev = Midi_Event_Type_SetTempo \<Longrightarrow> device_calls st' = device_calls st"
  by (auto simp: MidiFile_Play_dispatch_def MidiEvent_GetType_def Let_def
        split: if_splits MidiEventData.splits)



lemma track_device_inv:
  assumes "\<And>s p tr tk us. fst (cbFunc s p tr tk us) = Player_Callback_IgnoreEvent"
    and "device_calls st = []"
  shows "device_calls (state_of (MidiFile_Play_track midi start_usec cbFunc dec t st)) = []"
  using assms unfolding MidiFile_Play_track_def Let_def MidiEvent_GetType_def
  by (auto simp: Player_Callback_IgnoreEvent_def Player_Callback_Abort_def
        dest!: dispatch_tempo_keeps_device advance_keeps_cb
        split: option.splits res.splits)


text \<open>
  A property of the player's state that the body of the track loop keeps, and that does
  not depend on the clocks, the sleep log and \<open>minimumWaitTicks\<close>, holds of the state of
  every run, however it stands.
\<close>

lemma tracks_invariant:
  assumes step: "\<And>t st. P st \<Longrightarrow> P (state_of (MidiFile_Play_track midi start_usec cbFunc dec t st))"
    and "P st"
  shows "P (state_of (MidiFile_Play_tracks midi start_usec cbFunc dec ts st))"
  using assms(2)
proof (induction ts arbitrary: st)
  case Nil
  then show ?case by simp
next
  case (Cons t ts)
  have body: "P (state_of (MidiFile_Play_track midi start_usec cbFunc dec t st))"
    by (rule step [OF Cons.prems])
  show ?case
  proof (cases "MidiFile_Play_track midi start_usec cbFunc dec t st")
    case (Running st1)
    then have "P st1" using body by simp
    then show ?thesis using Running Cons.IH by simp
  qed (use body in simp_all)
qed

lemma loop_invariant:
  assumes step: "\<And>dec t st. P st \<Longrightarrow> P (state_of (MidiFile_Play_track midi start_usec cbFunc dec t st))"
    and ticks: "\<And>st a. P st \<Longrightarrow> P (st\<lparr>currentTotalTime_Ticks := a\<rparr>)"
    and usecs: "\<And>st a. P st \<Longrightarrow> P (st\<lparr>currentTotalTime_Usecs := a\<rparr>)"
    and sleep: "\<And>st a. P st \<Longrightarrow> P (st\<lparr>sleeps := a\<rparr>)"
    and wait: "\<And>st a. P st \<Longrightarrow> P (st\<lparr>minimumWaitTicks := a\<rparr>)"
    and "P st"
  shows "P (state_of (MidiFile_Play_loop fuel midi start_usec cbFunc st))"
  using assms(6)
proof (induction fuel arbitrary: st)
  case 0
  then show ?case by simp
next
  case (Suc fuel)
  show ?case
  proof (cases "countFinishedTracks st < nTrks midi")
    case False
    then show ?thesis using Suc.prems by simp
  next
    case True
    define st1 where "st1 = st\<lparr>currentTotalTime_Ticks := currentTotalTime_Ticks st + minimumWaitTicks st,
                      currentTotalTime_Usecs :=
                        currentTotalTime_Usecs st + TickDurationUs st * minimumWaitTicks st\<rparr>"
    define st2 where "st2 = (if start_usec \<le> currentTotalTime_Usecs st1
                   then st1\<lparr>sleeps := sleeps st1 @ [TickDurationUs st1 * minimumWaitTicks st1]\<rparr>
                   else st1)"
    define st3 where "st3 = st2\<lparr>minimumWaitTicks := UINT32_MAX\<rparr>"
    define r where "r = MidiFile_Play_tracks midi start_usec cbFunc (minimumWaitTicks st2)
                          [0 ..< unat (nTrks midi)] st3"
    have "P (st\<lparr>currentTotalTime_Ticks := currentTotalTime_Ticks st + minimumWaitTicks st\<rparr>)"
      by (rule ticks [OF Suc.prems])
    then have "P st1" unfolding st1_def by (rule usecs)
    then have "P st2" unfolding st2_def by (simp add: sleep)
    then have "P st3" unfolding st3_def by (rule wait)
    have r: "P (state_of r)" unfolding r_def
    proof (rule tracks_invariant [where P = P])
      fix t st
      assume "P st"
      then show "P (state_of (MidiFile_Play_track midi start_usec cbFunc (minimumWaitTicks st2) t st))"
        by (rule step)
    next
      show "P st3" by fact
    qed
    have unfold: "MidiFile_Play_loop (Suc fuel) midi start_usec cbFunc st
          = (case r of Running st4 \<Rightarrow> MidiFile_Play_loop fuel midi start_usec cbFunc st4
             | Returned x \<Rightarrow> r | Aborted x \<Rightarrow> r | Undefined_behaviour x \<Rightarrow> r)"
      using True by (simp add: Let_def r_def st3_def st2_def st1_def split: play_result.splits)
    show ?thesis
    proof (cases r)
      case (Running st4)
      then have "P st4" using r by simp
      then show ?thesis using Running unfold Suc.IH by simp
    qed (use r unfold in simp_all)
  qed
qed


lemma MidiFile_Play_ignoring_device:
  assumes "\<And>s p tr tk us. fst (cbFunc s p tr tk us) = Player_Callback_IgnoreEvent"
  shows "device_calls (state_of (MidiFile_Play fuel midi start_usec (Some cbFunc) s0)) = []"
  unfolding MidiFile_Play_def option.case
  by (rule loop_invariant [where P = "\<lambda>st. device_calls st = []"])
     (simp_all add: track_device_inv assms MidiFile_Play_init_def)

section \<open>The callback of the time map\<close>



lemma playerCb_ends:
  assumes "ends_note midi (p, tr, tk, us) tr ch key"
  shows "playerCb midi (Ok lst) p tr tk us
         = (Player_Callback_IgnoreEvent, playerCb_find midi (length lst) p tr us ch key lst)"
  using assms
  by (auto simp: playerCb_def ends_note_def is_note_event_def note_data_def
        split: option.splits MidiEventData.splits)






lemma list_all_drop_nth:
  assumes "list_all P (drop (Suc i) xs)" "i < j" "j < length xs"
  shows "P (xs ! j)"
proof -
  have "j - Suc i < length (drop (Suc i) xs)" using assms(2,3) by simp
  then have "P (drop (Suc i) xs ! (j - Suc i))" using assms(1) by (simp add: list_all_length)
  then show ?thesis using assms(2,3) by simp
qed

lemma track_plays_note:
  assumes "deref midi (t, unat (currentEvent st ! t)) = Some ev"
    and "interface ev = Midi_Event_Type_NoteOn" "data ev = Data_NoteEvent ch key vel oo"
    and "waitTicks st ! t = dec"
    and "fst (cbFunc (cb_state st) (t, unat (currentEvent st ! t)) (of_nat t)
               (currentTotalTime_Ticks st) (currentTotalTime_Usecs st)) = Player_Callback_PlayEvent"
    and "start_usec \<le> currentTotalTime_Usecs st"
  shows "device_calls (state_of (MidiFile_Play_track midi start_usec cbFunc dec t st))
         = device_calls st @ [MidiDevice_PlayNote key ch vel 1]"
  using assms unfolding MidiFile_Play_track_def Let_def MidiEvent_GetType_def deref_def
  by (auto simp: Player_Callback_IgnoreEvent_def Player_Callback_Abort_def
        Player_Callback_PlayEvent_def MidiFile_Play_dispatch_def MidiEvent_GetType_def
        dest!: advance_keeps_cb
        split: option.splits res.splits if_splits)

lemma track_keeps_tempo:
  assumes "deref midi (t, unat (currentEvent st ! t)) = Some ev"
    and "interface ev \<noteq> Midi_Event_Type_SetTempo"
    and "\<And>s p tr tk us. fst (cbFunc s p tr tk us) = Player_Callback_IgnoreEvent"
  shows "TickDurationUs (state_of (MidiFile_Play_track midi start_usec cbFunc dec t st))
         = TickDurationUs st"
  using assms unfolding MidiFile_Play_track_def Let_def MidiEvent_GetType_def deref_def
  by (auto simp: Player_Callback_IgnoreEvent_def Player_Callback_Abort_def
        dest!: advance_keeps_cb
        split: option.splits res.splits if_splits)

section \<open>Note pairing in the time map\<close>




section \<open>The time map and the synth sink\<close>

text \<open>
  Claim C10. The callback of \<open>Midi_MapAbsoluteTime\<close> returns
  \<open>Player_Callback_IgnoreEvent\<close> for every event and in every state; the run of the
  player under it, for every file and however far it is followed, has made no call of
  \<open>MidiDevice_PlayNote\<close> or \<open>MidiDevice_SetChannelInstrument\<close>; and firing an event
  that is not a Set Tempo leaves \<open>TickDurationUs\<close> as it was.
\<close>

theorem time_map_leaves_device_alone:
  "fst (playerCb midi s p tr tk us) = Player_Callback_IgnoreEvent
   \<and> device_calls (state_of (Midi_MapAbsoluteTime fuel midi)) = []
   \<and> (deref midi (t, unat (currentEvent st ! t)) = Some ev
        \<and> interface ev \<noteq> Midi_Event_Type_SetTempo \<longrightarrow>
      TickDurationUs (state_of (MidiFile_Play_track midi UINT32_MAX (playerCb midi) dec t st))
        = TickDurationUs st)"
proof (intro conjI impI)
  show cb: "fst (playerCb midi s p tr tk us) = Player_Callback_IgnoreEvent" for s p tr tk us
    by (simp add: playerCb_def)
  show "device_calls (state_of (Midi_MapAbsoluteTime fuel midi)) = []"
    unfolding Midi_MapAbsoluteTime_def by (rule MidiFile_Play_ignoring_device) (rule cb)
  assume a: "deref midi (t, unat (currentEvent st ! t)) = Some ev
        \<and> interface ev \<noteq> Midi_Event_Type_SetTempo"
  then show "TickDurationUs (state_of (MidiFile_Play_track midi UINT32_MAX (playerCb midi) dec t st))
        = TickDurationUs st"
    by (intro track_keeps_tempo [where ev = ev]) (simp_all add: cb)
qed

theorem time_map_leaves_device_alone_witness:
  "deref two_notes_file
     (0, unat (currentEvent (MidiFile_Play_init two_notes_file
                               (Ok [] :: MidiAbsoluteTimeMap list res)) ! 0))
     = Some \<lparr>deltaTime = 0, interface = Midi_Event_Type_NoteOn, data = Data_NoteEvent 0 60 64 0x90\<rparr>
   \<and> Midi_Event_Type_NoteOn \<noteq> Midi_Event_Type_SetTempo
   \<and> fst (playerCb two_notes_file (Ok []) (0, 0) 0 0 0) = Player_Callback_IgnoreEvent
   \<and> device_calls (state_of (Midi_MapAbsoluteTime 5 two_notes_file)) = []
   \<and> TickDurationUs (state_of (MidiFile_Play_track two_notes_file UINT32_MAX
         (playerCb two_notes_file) 0 0 (MidiFile_Play_init two_notes_file (Ok [])))) = 2602"
proof -
  have d: "deref two_notes_file
     (0, unat (currentEvent (MidiFile_Play_init two_notes_file
                               (Ok [] :: MidiAbsoluteTimeMap list res)) ! 0))
     = Some \<lparr>deltaTime = 0, interface = Midi_Event_Type_NoteOn, data = Data_NoteEvent 0 60 64 0x90\<rparr>"
    by code_simp
  have t: "TickDurationUs (MidiFile_Play_init two_notes_file (Ok [])) = 2602"
    by (simp add: MidiFile_Play_init_def)
  have i: "interface \<lparr>deltaTime = 0, interface = Midi_Event_Type_NoteOn,
                      data = Data_NoteEvent 0 60 64 0x90\<rparr> \<noteq> Midi_Event_Type_SetTempo"
    by simp
  note w = time_map_leaves_device_alone [where midi = two_notes_file and s = "Ok []"
        and p = "(0, 0)" and tr = 0 and tk = 0 and us = 0 and fuel = 5 and t = 0
        and st = "MidiFile_Play_init two_notes_file (Ok [])" and dec = 0
        and ev = "\<lparr>deltaTime = 0, interface = Midi_Event_Type_NoteOn,
                    data = Data_NoteEvent 0 60 64 0x90\<rparr>"]
  from w have w1: "fst (playerCb two_notes_file (Ok []) (0, 0) 0 0 0) = Player_Callback_IgnoreEvent"
    and w2: "device_calls (state_of (Midi_MapAbsoluteTime 5 two_notes_file)) = []"
    by blast+
  have "TickDurationUs (state_of (MidiFile_Play_track two_notes_file UINT32_MAX
         (playerCb two_notes_file) 0 0 (MidiFile_Play_init two_notes_file (Ok []))))
       = TickDurationUs (MidiFile_Play_init two_notes_file (Ok [] :: MidiAbsoluteTimeMap list res))"
    by (rule w [THEN conjunct2, THEN conjunct2, THEN mp]) (intro conjI d i)
  then have w3: "TickDurationUs (state_of (MidiFile_Play_track two_notes_file UINT32_MAX
         (playerCb two_notes_file) 0 0 (MidiFile_Play_init two_notes_file (Ok [])))) = 2602"
    by (simp only: t)
  have n: "Midi_Event_Type_NoteOn \<noteq> Midi_Event_Type_SetTempo" by simp
  show ?thesis by (intro conjI d n w1 w2 w3)
qed



section \<open>Note On with velocity 0\<close>

text \<open>
  Claim C1, as stated, fails in the player: playing a file whose only event is a Note
  On with velocity 0, with the callback returning \<open>Player_Callback_PlayEvent\<close> and
  \<open>start_usec = 0\<close>, calls \<open>MidiDevice_PlayNote\<close> with \<open>state = 1\<close> (note on), not 0.
\<close>

theorem velocity_zero_counterexample:
  "MidiFile_Play 1 silent_note_file 0 None ()
     = Returned \<lparr>waitTicks = [UINT32_MAX], minimumWaitTicks = UINT32_MAX,
         countFinishedTracks = 1, currentEvent = [1], TickDurationUs = 2602,
         currentTotalTime_Ticks = 0, currentTotalTime_Usecs = 0,
         device_calls = [MidiDevice_PlayNote 60 0 0 1], sleeps = [0],
         cb_calls = [((0, 0), 0, 0, 0)], cb_state = ()\<rparr>"
  by code_simp

text \<open>
  Claim C1, amended. In the time map a Note On with velocity 0 runs the same search as
  a Note Off for the same channel and key, and closes the same entry, the latest that is
  still open for the track, channel and key, with the same \<open>endTime\<close>, the \<open>OffEvent\<close>
  being the event itself. In the player, when the callback returns
  \<open>Player_Callback_PlayEvent\<close> and \<open>currentTotalTime_Usecs \<ge> start_usec\<close>, it is handed
  to the synth sink as it is: \<open>MidiDevice_PlayNote(key, channel, 0, 1)\<close>, the state
  argument being \<open>type == Midi_Event_Type_NoteOn\<close>.
\<close>

theorem velocity_zero_note_on:
  "(deref midi p = Some ev \<and> interface ev = Midi_Event_Type_NoteOn
      \<and> data ev = Data_NoteEvent ch key 0 oo
      \<and> deref midi q = Some ev' \<and> interface ev' = Midi_Event_Type_NoteOff
      \<and> data ev' = Data_NoteEvent ch key vel (type_byte Midi_Event_Type_NoteOff) \<longrightarrow>
        playerCb midi (Ok lst) p tr tk us
          = (Player_Callback_IgnoreEvent, playerCb_find midi (length lst) p tr us ch key lst)
      \<and> playerCb midi (Ok lst) q tr tk us
          = (Player_Callback_IgnoreEvent, playerCb_find midi (length lst) q tr us ch key lst)
      \<and> (list_all (note_on_entry midi) lst \<and> i < length lst
           \<and> open_entry midi tr ch key (lst ! i)
           \<and> list_all (\<lambda>e. \<not> open_entry midi tr ch key e) (drop (Suc i) lst) \<longrightarrow>
          playerCb midi (Ok lst) p tr tk us
            = (Player_Callback_IgnoreEvent,
               Ok (lst[i := (lst ! i)\<lparr>OffEvent := Some p, endTime := us\<rparr>]))
          \<and> playerCb midi (Ok lst) q tr tk us
            = (Player_Callback_IgnoreEvent,
               Ok (lst[i := (lst ! i)\<lparr>OffEvent := Some q, endTime := us\<rparr>]))))
   \<and> (deref midi (t, unat (currentEvent st ! t)) = Some ev
      \<and> interface ev = Midi_Event_Type_NoteOn \<and> data ev = Data_NoteEvent ch key 0 oo
      \<and> waitTicks st ! t = dec
      \<and> fst (cbFunc (cb_state st) (t, unat (currentEvent st ! t)) (of_nat t)
               (currentTotalTime_Ticks st) (currentTotalTime_Usecs st))
          = Player_Callback_PlayEvent
      \<and> start_usec \<le> currentTotalTime_Usecs st \<longrightarrow>
        device_calls (state_of (MidiFile_Play_track midi start_usec cbFunc dec t st))
          = device_calls st @ [MidiDevice_PlayNote key ch 0 1])"
proof (intro conjI impI)
  assume a: "deref midi p = Some ev \<and> interface ev = Midi_Event_Type_NoteOn
      \<and> data ev = Data_NoteEvent ch key 0 oo
      \<and> deref midi q = Some ev' \<and> interface ev' = Midi_Event_Type_NoteOff
      \<and> data ev' = Data_NoteEvent ch key vel (type_byte Midi_Event_Type_NoteOff)"
  then have ep: "ends_note midi (p, tr, tk, us) tr ch key"
    and eq: "ends_note midi (q, tr, tk, us) tr ch key"
    by (simp_all add: ends_note_def is_note_event_def note_data_def)
  show fp: "playerCb midi (Ok lst) p tr tk us
          = (Player_Callback_IgnoreEvent, playerCb_find midi (length lst) p tr us ch key lst)"
    by (rule playerCb_ends [OF ep])
  show fq: "playerCb midi (Ok lst) q tr tk us
          = (Player_Callback_IgnoreEvent, playerCb_find midi (length lst) q tr us ch key lst)"
    by (rule playerCb_ends [OF eq])
  assume b: "list_all (note_on_entry midi) lst \<and> i < length lst
           \<and> open_entry midi tr ch key (lst ! i)
           \<and> list_all (\<lambda>e. \<not> open_entry midi tr ch key e) (drop (Suc i) lst)"
  then have later: "\<forall>j. i < j \<and> j < length lst \<longrightarrow> \<not> open_entry midi tr ch key (lst ! j)"
    using list_all_drop_nth [of "\<lambda>e. \<not> open_entry midi tr ch key e" i lst] by blast
  have "playerCb_find midi (length lst) r tr us ch key lst
          = Ok (lst[i := (lst ! i)\<lparr>OffEvent := Some r, endTime := us\<rparr>])" for r
    using b later by (intro playerCb_find_closes) simp_all
  then show "playerCb midi (Ok lst) p tr tk us
            = (Player_Callback_IgnoreEvent,
               Ok (lst[i := (lst ! i)\<lparr>OffEvent := Some p, endTime := us\<rparr>]))"
    and "playerCb midi (Ok lst) q tr tk us
            = (Player_Callback_IgnoreEvent,
               Ok (lst[i := (lst ! i)\<lparr>OffEvent := Some q, endTime := us\<rparr>]))"
    by (simp_all add: fp fq)
next
  assume "deref midi (t, unat (currentEvent st ! t)) = Some ev
      \<and> interface ev = Midi_Event_Type_NoteOn \<and> data ev = Data_NoteEvent ch key 0 oo
      \<and> waitTicks st ! t = dec
      \<and> fst (cbFunc (cb_state st) (t, unat (currentEvent st ! t)) (of_nat t)
               (currentTotalTime_Ticks st) (currentTotalTime_Usecs st))
          = Player_Callback_PlayEvent
      \<and> start_usec \<le> currentTotalTime_Usecs st"
  then show "device_calls (state_of (MidiFile_Play_track midi start_usec cbFunc dec t st))
          = device_calls st @ [MidiDevice_PlayNote key ch 0 1]"
    by (intro track_plays_note [where ev = ev and oo = oo]) simp_all
qed


theorem velocity_zero_note_on_witness:
  "deref velocity_zero_file (0, 1)
     = Some \<lparr>deltaTime = 10, interface = Midi_Event_Type_NoteOn, data = Data_NoteEvent 0 60 0 0x90\<rparr>
   \<and> deref velocity_zero_file (0, 2)
     = Some \<lparr>deltaTime = 10, interface = Midi_Event_Type_NoteOff, data = Data_NoteEvent 0 60 64 0x80\<rparr>
   \<and> playerCb velocity_zero_file
        (Ok [\<lparr>track = 0, OnEvent = (0, 0), OffEvent = None, startTime = 0, endTime = UINT32_MAX\<rparr>])
        (0, 1) 0 10 26020
       = (Player_Callback_IgnoreEvent,
          Ok [\<lparr>track = 0, OnEvent = (0, 0), OffEvent = Some (0, 1), startTime = 0,
                endTime = 26020\<rparr>])
   \<and> playerCb velocity_zero_file
        (Ok [\<lparr>track = 0, OnEvent = (0, 0), OffEvent = None, startTime = 0, endTime = UINT32_MAX\<rparr>])
        (0, 2) 0 10 26020
       = (Player_Callback_IgnoreEvent,
          Ok [\<lparr>track = 0, OnEvent = (0, 0), OffEvent = Some (0, 2), startTime = 0,
                endTime = 26020\<rparr>])
   \<and> device_calls (state_of (MidiFile_Play_track velocity_zero_file 0 trivial_callback 10 0
         \<lparr>waitTicks = [10], minimumWaitTicks = UINT32_MAX, countFinishedTracks = 0,
           currentEvent = [1], TickDurationUs = 2602, currentTotalTime_Ticks = 10,
           currentTotalTime_Usecs = 26020, device_calls = [MidiDevice_PlayNote 60 0 64 1],
           sleeps = [0, 26020], cb_calls = [((0, 0), 0, 0, 0)], cb_state = ()\<rparr>))
       = [MidiDevice_PlayNote 60 0 64 1, MidiDevice_PlayNote 60 0 0 1]"
proof -
  let ?e0 = "\<lparr>track = 0, OnEvent = (0, 0), OffEvent = None, startTime = 0, endTime = UINT32_MAX\<rparr>"
  let ?on0 = "\<lparr>deltaTime = 10, interface = Midi_Event_Type_NoteOn, data = Data_NoteEvent 0 60 0 0x90\<rparr>"
  let ?off = "\<lparr>deltaTime = 10, interface = Midi_Event_Type_NoteOff, data = Data_NoteEvent 0 60 64 0x80\<rparr>"
  let ?st = "\<lparr>waitTicks = [10], minimumWaitTicks = UINT32_MAX, countFinishedTracks = 0,
           currentEvent = [1], TickDurationUs = 2602, currentTotalTime_Ticks = 10,
           currentTotalTime_Usecs = 26020, device_calls = [MidiDevice_PlayNote 60 0 64 1],
           sleeps = [0, 26020], cb_calls = [((0, 0), 0, 0, 0)], cb_state = ()\<rparr>"
  note w = velocity_zero_note_on [where midi = velocity_zero_file and p = "(0, 1)" and ev = ?on0
      and ch = 0 and key = 60 and oo = "0x90" and q = "(0, 2)" and ev' = ?off and vel = 64
      and lst = "[?e0]" and tr = 0 and tk = 10 and us = 26020 and i = 0 and t = 0 and st = ?st
      and dec = 10 and cbFunc = trivial_callback and start_usec = 0]
  have dp: "deref velocity_zero_file (0, 1) = Some ?on0" by code_simp
  have dq: "deref velocity_zero_file (0, 2) = Some ?off" by code_simp
  have h1: "deref velocity_zero_file (0, 1) = Some ?on0 \<and> interface ?on0 = Midi_Event_Type_NoteOn
      \<and> data ?on0 = Data_NoteEvent 0 60 0 0x90
      \<and> deref velocity_zero_file (0, 2) = Some ?off \<and> interface ?off = Midi_Event_Type_NoteOff
      \<and> data ?off = Data_NoteEvent 0 60 64 (type_byte Midi_Event_Type_NoteOff)"
    using dp dq by simp
  have h2: "list_all (note_on_entry velocity_zero_file) [?e0] \<and> 0 < length [?e0]
           \<and> open_entry velocity_zero_file 0 0 60 ([?e0] ! 0)
           \<and> list_all (\<lambda>e. \<not> open_entry velocity_zero_file 0 0 60 e) (drop (Suc 0) [?e0])"
    by code_simp
  have h3: "deref velocity_zero_file (0, unat (currentEvent ?st ! 0)) = Some ?on0
      \<and> interface ?on0 = Midi_Event_Type_NoteOn \<and> data ?on0 = Data_NoteEvent 0 60 0 0x90
      \<and> waitTicks ?st ! 0 = 10
      \<and> fst (trivial_callback (cb_state ?st) (0, unat (currentEvent ?st ! 0)) (of_nat 0)
               (currentTotalTime_Ticks ?st) (currentTotalTime_Usecs ?st))
          = Player_Callback_PlayEvent
      \<and> 0 \<le> currentTotalTime_Usecs ?st"
    using dp by (simp add: trivial_callback_def)
  note tm = w [THEN conjunct1, THEN mp, OF h1]
  note both = tm [THEN conjunct2, THEN conjunct2, THEN mp, OF h2]
  have cp: "playerCb velocity_zero_file (Ok [?e0]) (0, 1) 0 10 26020
       = (Player_Callback_IgnoreEvent,
          Ok [\<lparr>track = 0, OnEvent = (0, 0), OffEvent = Some (0, 1), startTime = 0,
                endTime = 26020\<rparr>])"
    using both [THEN conjunct1] by simp
  have cq: "playerCb velocity_zero_file (Ok [?e0]) (0, 2) 0 10 26020
       = (Player_Callback_IgnoreEvent,
          Ok [\<lparr>track = 0, OnEvent = (0, 0), OffEvent = Some (0, 2), startTime = 0,
                endTime = 26020\<rparr>])"
    using both [THEN conjunct2] by simp
  have pl: "device_calls (state_of (MidiFile_Play_track velocity_zero_file 0 trivial_callback 10 0 ?st))
       = [MidiDevice_PlayNote 60 0 64 1, MidiDevice_PlayNote 60 0 0 1]"
    using w [THEN conjunct2, THEN mp, OF h3] by simp
  show ?thesis by (intro conjI dp dq cp cq pl)
qed


end
